theory Spec2Isabelle
  imports Complex_Main "HOL-Library.Word" "HOL-Library.Signed_Division"
begin

unbundle bit_operations_syntax

section \<open>The Miniscope acquisition controller (libminiscope/miniscope.cpp)\<close>

text \<open>
  A shallow embedding of \<^verbatim>\<open>class MiniScope\<close> and its private data
  \<^verbatim>\<open>class MiniScopeData\<close>. Every member function becomes a function on the
  record \<open>scope\<close>, which holds the fields of \<^verbatim>\<open>MiniScopeData\<close> (prefixed
  \<open>d_\<close>, as the source reads them through \<^verbatim>\<open>d->\<close>) together with the
  observable environment: the calls made on the camera, the calls made on the video
  writer, and the messages written.

  What the embedding idealises:
  \<^item> C++ \<^verbatim>\<open>int\<close> values are HOL integers; the functions modelled here only compare and
    store them. The \<^verbatim>\<open>size_t\<close> counter wraps at \<open>2 ^ 64\<close>, written out.
  \<^item> C++ \<^verbatim>\<open>double\<close> values are real numbers: rounding is not modelled. A division
    whose divisor is zero and a conversion whose operand does not fit are values of
    \<open>arith_fault\<close>.
  \<^item> The capture thread and the caller are interleaved at the granularity of one
    iteration of the capture loop: an iteration runs atomically.
  \<^item> OpenCV, Boost and the video writer are not part of the source at hand; what the
    source needs of them is a parameter (record \<open>extern\<close>), an input of the
    environment, or a definition marked as modelled.
\<close>

subsection \<open>Images\<close>

type_synonym bgr_image = "(8 word \<times> 8 word \<times> 8 word) list list"
type_synonym plane = "8 word list list"

text \<open>A \<^verbatim>\<open>cv::Mat\<close>: empty, a three-channel 8-bit image (rows of (blue, green, red)
  pixels), or a single-channel 8-bit image.\<close>

datatype mat = EmptyMat | BGR bgr_image | GRAY plane

definition mat_rows :: "'a list list \<Rightarrow> nat" where
  "mat_rows img = length img"

definition mat_cols :: "'a list list \<Rightarrow> nat" where
  "mat_cols img = (case img of [] \<Rightarrow> 0 | r # _ \<Rightarrow> length r)"

text \<open>\<^verbatim>\<open>cv::split\<close> on a three-channel image: the planes in the order blue, green, red.\<close>

definition split_bgr :: "bgr_image \<Rightarrow> plane \<times> plane \<times> plane" where
  "split_bgr img =
     (map (map (\<lambda>(b, g, r). b)) img, map (map (\<lambda>(b, g, r). g)) img, map (map (\<lambda>(b, g, r). r)) img)"

text \<open>\<^verbatim>\<open>cv::merge\<close> of three planes of one size.\<close>

definition merge_bgr :: "plane \<Rightarrow> plane \<Rightarrow> plane \<Rightarrow> bgr_image" where
  "merge_bgr pb pg pr =
     map (\<lambda>(rb, rg, rr). map (\<lambda>(b, g, r). (b, g, r)) (zip rb (zip rg rr))) (zip pb (zip pg pr))"

text \<open>\<^verbatim>\<open>cv::Mat::zeros(rows, cols, CV_8UC1)\<close>.\<close>

definition zeros :: "nat \<Rightarrow> nat \<Rightarrow> plane" where
  "zeros rows cols = replicate rows (replicate cols 0)"

subsection \<open>The frame ring: \<^verbatim>\<open>boost::circular_buffer\<close>\<close>

text \<open>Modelled from the Boost documentation: a buffer of fixed capacity whose
  \<^verbatim>\<open>push_back\<close> on a full buffer overwrites the oldest element, and does nothing
  when the capacity is zero. The oldest element is the head of \<open>cb_items\<close>.\<close>

record 'a circular_buffer =
  cb_capacity :: nat
  cb_items :: "'a list"

definition cb_new :: "nat \<Rightarrow> 'a circular_buffer" where
  "cb_new n = \<lparr>cb_capacity = n, cb_items = []\<rparr>"

definition cb_size :: "'a circular_buffer \<Rightarrow> nat" where
  "cb_size b = length (cb_items b)"

definition cb_push_back :: "'a \<Rightarrow> 'a circular_buffer \<Rightarrow> 'a circular_buffer" where
  "cb_push_back x b =
     (if cb_capacity b = 0 then b
      else if length (cb_items b) < cb_capacity b then b\<lparr>cb_items := cb_items b @ [x]\<rparr>
      else b\<lparr>cb_items := tl (cb_items b) @ [x]\<rparr>)"

definition cb_pop_front :: "'a circular_buffer \<Rightarrow> 'a circular_buffer" where
  "cb_pop_front b = b\<lparr>cb_items := tl (cb_items b)\<rparr>"

subsection \<open>The environment\<close>

text \<open>The camera properties the source uses as command channels, and the calls made on
  \<^verbatim>\<open>d->cam\<close>, in the order they are made.\<close>

datatype cam_prop =
  CV_CAP_PROP_BRIGHTNESS | CV_CAP_PROP_GAIN | CV_CAP_PROP_HUE | CV_CAP_PROP_SATURATION

datatype cam_call =
  CamOpen int | CamRelease | CamSet cam_prop real | CamGet cam_prop | CamGrab | CamRetrieve

text \<open>Modelled from the spec: the enumerations of \<^verbatim>\<open>videowriter.h\<close> are missing. The
  spec asks for codec and container selections; the source names one enumerator of each,
  the others are numbered.\<close>

datatype VideoCodec = VP9 | OtherCodec nat
datatype VideoContainer = Matroska | OtherContainer nat

text \<open>Modelled from the spec: the Recorder (\<^verbatim>\<open>VideoWriter\<close>, declared in the missing
  \<^verbatim>\<open>videowriter.h\<close>) offers \<open>initialize(path, width, height, fps, isColor)\<close>, which
  may fail, \<open>encodeFrame(frame)\<close>, \<open>finalize()\<close> and \<open>isInitialized()\<close>. The calls
  made on it are logged in order; \<open>Finalize\<close> carries whether the writer it was called
  on had been initialized, \<open>Initialize\<close> carries the error it threw, if any.\<close>

datatype vwriter_call =
  SetCodec VideoCodec | SetContainer VideoContainer | SetLossless bool
  | Initialize string nat nat int bool "string option"
  | EncodeFrame mat
  | Finalize bool

text \<open>A message: plain text, or \<^verbatim>\<open>boost::str(boost::format(f) % a)\<close> kept as the format
  and its argument.\<close>

datatype fmt_arg = ArgInt int | ArgStr string
datatype message = Plain string | Format string fmt_arg

text \<open>What the source takes from headers and libraries that are not at hand: the
  constants of \<^verbatim>\<open>definitions.h\<close>, the placeholder image (drawn with
  \<^verbatim>\<open>cv::putText\<close>), the grayscale operations of OpenCV, and the number of clock
  ticks in a millisecond (the period of \<^verbatim>\<open>high_resolution_clock\<close> is
  implementation-defined).\<close>

record extern =
  TRIG_RECORD_EXT :: int
  SET_CMOS_SETTINGS :: real
  droppedFrameImage :: mat
  cvtColor_BGR2GRAY :: "bgr_image \<Rightarrow> plane"
  minMaxLoc :: "plane \<Rightarrow> real \<times> real"
  convertTo_8U :: "plane \<Rightarrow> real \<Rightarrow> real \<Rightarrow> plane"
  ticks_per_ms :: int

subsection \<open>\<^verbatim>\<open>MiniScopeData\<close>\<close>

datatype arith_fault = DivisionByZero | CastOutOfRange

text \<open>The local variables of \<^verbatim>\<open>captureThread\<close> that live across iterations.
  \<open>vwriter_initialized\<close> is \<^verbatim>\<open>vwriter->initialized()\<close>.\<close>

record capture =
  currentTime :: int
  recordFrames :: bool
  vwriter_initialized :: bool

text \<open>The thread behind \<^verbatim>\<open>d->thread\<close>: inside its loop (between two iterations),
  or returned and waiting to be joined.\<close>

datatype capture_thread = Live capture | Returned

record scope =
  d_thread :: "capture_thread option"
  d_scopeCamId :: int
  d_exposure :: int
  d_gain :: int
  d_excitation :: int
  d_fps :: nat
  d_excitationX10 :: bool
  d_videoFname :: string
  d_minFluor :: real
  d_maxFluor :: real
  d_minFluorDisplay :: int
  d_maxFluorDisplay :: int
  d_connected :: bool
  d_running :: bool
  d_recording :: bool
  d_failed :: bool
  d_checkRecTrigger :: bool
  d_recordStart :: int
  d_droppedFramesCount :: nat
  d_currentFPS :: "arith_fault + nat"
  d_frameRing :: "mat circular_buffer"
  d_onMessageCallback :: bool
  d_useColor :: bool
  d_showRed :: bool
  d_showGreen :: bool
  d_showBlue :: bool
  d_videoCodec :: VideoCodec
  d_videoContainer :: VideoContainer
  d_recordLossless :: bool
  cam_opened :: bool
  cam_calls :: "cam_call list"
  vwriter_calls :: "vwriter_call list"
  cout :: "message list"
  cerr :: "message list"
  callback_msgs :: "message list"

text \<open>The constructors, lines 36-57 and 104-112. The argument is the memory before
  construction: the fields the constructors do not initialize (\<^verbatim>\<open>minFluor\<close>,
  \<^verbatim>\<open>maxFluor\<close>, \<^verbatim>\<open>currentFPS\<close>, \<^verbatim>\<open>recordLossless\<close>) keep what it holds.\<close>

definition MiniScope_new :: "scope \<Rightarrow> scope" where
  "MiniScope_new mem =
     mem\<lparr>d_thread := None, d_scopeCamId := 0, d_connected := False, d_running := False,
         d_recording := False, d_failed := False, d_checkRecTrigger := False,
         d_droppedFramesCount := 0, d_useColor := False,
         d_frameRing := cb_new 64, d_videoCodec := VP9, d_videoContainer := Matroska,
         d_showRed := True, d_showGreen := True, d_showBlue := True,
         d_minFluorDisplay := 0, d_maxFluorDisplay := 255,
         d_videoFname := [], d_recordStart := 0, d_onMessageCallback := False,
         d_exposure := 100, d_gain := 32, d_excitation := 1, d_excitationX10 := False,
         d_fps := 20,
         cam_opened := False\<rparr>"

subsection \<open>Messages and camera calls\<close>

text \<open>\<^verbatim>\<open>emitMessage\<close>, lines 138-148.\<close>

definition emitMessage :: "message \<Rightarrow> scope \<Rightarrow> scope" where
  "emitMessage msg s =
     (if \<not> d_onMessageCallback s then s\<lparr>cout := cout s @ [msg]\<rparr>
      else s\<lparr>callback_msgs := callback_msgs s @ [msg]\<rparr>)"

text \<open>\<^verbatim>\<open>fail\<close>, lines 150-156.\<close>

definition fail :: "message \<Rightarrow> scope \<Rightarrow> scope" where
  "fail msg s = emitMessage msg (s\<lparr>d_recording := False, d_running := False, d_failed := True\<rparr>)"

definition cam_set :: "cam_prop \<Rightarrow> real \<Rightarrow> scope \<Rightarrow> scope" where
  "cam_set p v s = s\<lparr>cam_calls := cam_calls s @ [CamSet p v]\<rparr>"

text \<open>\<^verbatim>\<open>d->cam.open(id)\<close>; \<open>ok\<close> is what the device answers. The source never reads
  the answer.\<close>

definition cam_open :: "int \<Rightarrow> bool \<Rightarrow> scope \<Rightarrow> scope" where
  "cam_open ident ok s = s\<lparr>cam_calls := cam_calls s @ [CamOpen ident], cam_opened := ok\<rparr>"

definition cam_release :: "scope \<Rightarrow> scope" where
  "cam_release s = s\<lparr>cam_calls := cam_calls s @ [CamRelease], cam_opened := False\<rparr>"

subsection \<open>Settings\<close>

text \<open>\<^verbatim>\<open>setScopeCamId\<close>, lines 158-161.\<close>

definition setScopeCamId :: "int \<Rightarrow> scope \<Rightarrow> scope" where
  "setScopeCamId ident s = s\<lparr>d_scopeCamId := ident\<rparr>"

text \<open>\<^verbatim>\<open>setExposure\<close>, lines 163-172.\<close>

definition setExposure :: "int \<Rightarrow> scope \<Rightarrow> scope" where
  "setExposure v s =
     (let v = (if v = 0 then 1 else v);
          v = (if v > 100 then 100 else v);
          s = s\<lparr>d_exposure := v\<rparr>
      in cam_set CV_CAP_PROP_BRIGHTNESS (real_of_int (d_exposure s) / 100) s)"

text \<open>\<^verbatim>\<open>exposure\<close>, lines 174-177.\<close>

definition exposure :: "scope \<Rightarrow> int" where
  "exposure s = d_exposure s"

text \<open>\<^verbatim>\<open>setGain\<close> and \<^verbatim>\<open>gain\<close>, lines 179-188.\<close>

definition setGain :: "int \<Rightarrow> scope \<Rightarrow> scope" where
  "setGain v s =
     (let s = s\<lparr>d_gain := v\<rparr>
      in cam_set CV_CAP_PROP_GAIN (real_of_int (d_gain s) / 100) s)"

definition gain :: "scope \<Rightarrow> int" where
  "gain s = d_gain s"

text \<open>\<^verbatim>\<open>setLed\<close>, lines 402-413.\<close>

definition setLed :: "int \<Rightarrow> scope \<Rightarrow> scope" where
  "setLed v s =
     (let v = (if v > 100 then 100 else v);
          ledPower = real_of_int v / 2 / 100
      in if d_connected s then cam_set CV_CAP_PROP_HUE ledPower s else s)"

text \<open>\<^verbatim>\<open>setExcitation\<close> and \<^verbatim>\<open>excitation\<close>, lines 190-199.\<close>

definition setExcitation :: "int \<Rightarrow> scope \<Rightarrow> scope" where
  "setExcitation v s = setLed v (s\<lparr>d_excitation := v\<rparr>)"

definition excitation :: "scope \<Rightarrow> int" where
  "excitation s = d_excitation s"

subsection \<open>The frame ring of the controller\<close>

text \<open>\<^verbatim>\<open>addFrameToBuffer\<close>, lines 415-419.\<close>

definition addFrameToBuffer :: "mat \<Rightarrow> scope \<Rightarrow> scope" where
  "addFrameToBuffer frame s = s\<lparr>d_frameRing := cb_push_back frame (d_frameRing s)\<rparr>"

text \<open>\<^verbatim>\<open>currentFrame\<close>, lines 328-338: the frame returned and the state after.\<close>

definition currentFrame :: "scope \<Rightarrow> mat \<times> scope" where
  "currentFrame s =
     (if cb_size (d_frameRing s) = 0 then (EmptyMat, s)
      else
        (case cb_items (d_frameRing s) of
           [] \<Rightarrow> (EmptyMat, s)
         | frame # _ \<Rightarrow> (frame, s\<lparr>d_frameRing := cb_pop_front (d_frameRing s)\<rparr>)))"

subsection \<open>The capture thread, \<^verbatim>\<open>captureThread\<close>, lines 421-592\<close>

text \<open>What the environment answers during one iteration of the loop: the value read
  from the GPIO channel, the clock where the trigger starts a recording, the answers
  of \<^verbatim>\<open>grab\<close> and \<^verbatim>\<open>retrieve\<close>, the answer of the \<^verbatim>\<open>open\<close> of a
  reconnect, the clock after the retrieve, and the exception of
  \<^verbatim>\<open>vwriter->initialize\<close>, if it throws.\<close>

datatype retrieve_result = Retrieved bgr_image | RetrieveFailed | RetrieveThrew string

record iteration =
  in_gpio :: int
  in_trigger_clock :: int
  in_grab :: bool
  in_retrieve :: retrieve_result
  in_reopen :: bool
  in_clock :: int
  in_initialize :: "string option"

datatype flow = Next | Break

text \<open>Lines 423-445: what the thread does before it enters the loop. \<open>now\<close> is the
  clock read at line 425.\<close>

definition captureThread_enter :: "int \<Rightarrow> scope \<Rightarrow> scope" where
  "captureThread_enter now s =
     s\<lparr>d_droppedFramesCount := 0,
       d_thread := Some (Live \<lparr>currentTime = now, recordFrames = False,
                               vwriter_initialized = False\<rparr>)\<rparr>"

text \<open>Lines 590-591: the thread leaves the loop and returns.\<close>

definition captureThread_return :: "capture \<Rightarrow> scope \<Rightarrow> scope" where
  "captureThread_return l s =
     s\<lparr>vwriter_calls := vwriter_calls s @ [Finalize (vwriter_initialized l)],
       d_thread := Some Returned\<rparr>"

text \<open>Lines 450-465: the external trigger.\<close>

definition captureThread_trigger :: "extern \<Rightarrow> iteration \<Rightarrow> scope \<Rightarrow> scope" where
  "captureThread_trigger X i s =
     (if d_checkRecTrigger s then
        (let s = s\<lparr>cam_calls := cam_calls s @ [CamGet CV_CAP_PROP_SATURATION]\<rparr>;
             temp = in_gpio i;
             s = s\<lparr>cout := cout s @ [Format ''GPIO state: %1%'' (ArgInt temp)]\<rparr>
         in if temp AND TRIG_RECORD_EXT X = TRIG_RECORD_EXT X then
              (if \<not> d_recording s
               then s\<lparr>d_recordStart := in_trigger_clock i, d_recording := True\<rparr>
               else s)
            else s\<lparr>d_recording := False\<rparr>)
      else s)"

text \<open>Lines 480-496: a frame that could not be retrieved.\<close>

definition captureThread_dropped :: "extern \<Rightarrow> iteration \<Rightarrow> scope \<Rightarrow> scope" where
  "captureThread_dropped X i s =
     (let s = s\<lparr>d_recording := False\<rparr>;
          s = s\<lparr>d_droppedFramesCount := (d_droppedFramesCount s + 1) mod 2 ^ 64\<rparr>;
          s = emitMessage (Plain ''Dropped frame.'') s;
          s = addFrameToBuffer (droppedFrameImage X) s;
          s = (if d_droppedFramesCount s > 0 then
                 (let s = emitMessage (Plain ''Reconnecting Miniscope...'') s;
                      s = cam_release s;
                      s = cam_open (d_scopeCamId s) (in_reopen i) s
                  in emitMessage (Plain ''Miniscope reconnected.'') s)
               else s)
      in if d_droppedFramesCount s > 80
         then fail (Plain ''Too many dropped frames. Giving up.'') s
         else s)"

text \<open>Line 502: \<^verbatim>\<open>static_cast<uint>(1 / (delayTime.count() / static_cast<double>(1000)))\<close>.
  The conversion to \<^verbatim>\<open>uint\<close> truncates towards zero and is defined only when the
  truncated value fits 32 bits.\<close>

definition fps_of_delay :: "int \<Rightarrow> arith_fault + nat" where
  "fps_of_delay count =
     (let secs = real_of_int count / 1000
      in if secs = 0 then Inl DivisionByZero
         else
           (let q = 1 / secs;
                t = (if q < 0 then - \<lfloor>- q\<rfloor> else \<lfloor>q\<rfloor>)
            in if t < 0 \<or> 2 ^ 32 \<le> t then Inl CastOutOfRange else Inr (nat t)))"

text \<open>Lines 499-502: the clock and the frame rate. \<^verbatim>\<open>duration_cast\<close> truncates
  towards zero.\<close>

definition captureThread_telemetry ::
  "extern \<Rightarrow> iteration \<Rightarrow> capture \<Rightarrow> scope \<Rightarrow> capture \<times> scope" where
  "captureThread_telemetry X i l s =
     (let previousTime = currentTime l;
          l = l\<lparr>currentTime := in_clock i\<rparr>;
          delayTime = (currentTime l - previousTime) sdiv ticks_per_ms X
      in (l, s\<lparr>d_currentFPS := fps_of_delay delayTime\<rparr>))"

text \<open>Lines 504-513: the settings are sent again after dropped frames.\<close>

definition captureThread_resend :: "scope \<Rightarrow> scope" where
  "captureThread_resend s =
     (if d_droppedFramesCount s > 0 then
        (let s = emitMessage (Plain ''Sending settings again.'') s;
             s = cam_set CV_CAP_PROP_BRIGHTNESS (real_of_int (d_exposure s)) s;
             s = cam_set CV_CAP_PROP_GAIN (real_of_int (d_gain s)) s;
             s = setLed (d_excitation s) s
         in s\<lparr>d_droppedFramesCount := 0\<rparr>)
      else s)"

text \<open>Lines 515-541: from the retrieved image to \<^verbatim>\<open>frame\<close> and
  \<^verbatim>\<open>displayFrame\<close>, in this order. \<open>convertTo_8U g lo hi\<close> is
  \<^verbatim>\<open>g.convertTo(displayFrame, CV_8U, 255.0 / (hi - lo), -lo * 255.0 / (hi - lo))\<close>.\<close>

definition captureThread_visualize ::
  "extern \<Rightarrow> bgr_image \<Rightarrow> scope \<Rightarrow> mat \<times> mat \<times> scope" where
  "captureThread_visualize X img s =
     (let displayFrame = BGR img
      in if d_useColor s then
           (if d_showRed s \<or> d_showGreen s \<or> d_showBlue s then
              (let (c0, c1, c2) = split_bgr img;
                   c0 = (if \<not> d_showBlue s then zeros (mat_rows img) (mat_cols img) else c0);
                   c1 = (if \<not> d_showGreen s then zeros (mat_rows img) (mat_cols img) else c1);
                   c2 = (if \<not> d_showRed s then zeros (mat_rows img) (mat_cols img) else c2)
               in (BGR (merge_bgr c0 c1 c2), displayFrame, s))
            else (BGR img, displayFrame, s))
         else
           (let g = cvtColor_BGR2GRAY X img;
                (lo, hi) = minMaxLoc X g;
                s = s\<lparr>d_minFluor := lo, d_maxFluor := hi\<rparr>;
                displayFrame = GRAY (convertTo_8U X g (real_of_int (d_minFluorDisplay s))
                                       (real_of_int (d_maxFluorDisplay s)))
            in (GRAY g, displayFrame, s)))"

text \<open>\<^verbatim>\<open>recording\<close>, lines 286-289.\<close>

definition recording :: "scope \<Rightarrow> bool" where
  "recording s = (d_running s \<and> d_recording s)"

text \<open>\<^verbatim>\<open>running\<close>, lines 281-284.\<close>

definition running :: "scope \<Rightarrow> bool" where
  "running s = d_running s"

fun frame_rows :: "mat \<Rightarrow> nat" where
  "frame_rows EmptyMat = 0"
| "frame_rows (BGR img) = mat_rows img"
| "frame_rows (GRAY g) = mat_rows g"

fun frame_cols :: "mat \<Rightarrow> nat" where
  "frame_cols EmptyMat = 0"
| "frame_cols (BGR img) = mat_cols img"
| "frame_cols (GRAY g) = mat_cols g"

fun frame_channels :: "mat \<Rightarrow> nat" where
  "frame_channels EmptyMat = 1"
| "frame_channels (BGR img) = 3"
| "frame_channels (GRAY g) = 1"

text \<open>Lines 543-579: the video writer is initialized when a recording starts and
  finalized when it has stopped. \<^verbatim>\<open>vwriter.reset(new VideoWriter())\<close> leaves a writer
  that is not initialized.\<close>

definition captureThread_record ::
  "iteration \<Rightarrow> mat \<Rightarrow> capture \<Rightarrow> scope \<Rightarrow> flow \<times> capture \<times> scope" where
  "captureThread_record i frame l s =
     (if recording s then
        (if \<not> vwriter_initialized l then
           (let s = emitMessage (Plain ''Recording enabled.'') s;
                s = s\<lparr>vwriter_calls := vwriter_calls s @
                       [SetCodec (d_videoCodec s), SetContainer (d_videoContainer s),
                        SetLossless (d_recordLossless s),
                        Initialize (d_videoFname s) (frame_cols frame) (frame_rows frame)
                          (int (d_fps s)) (frame_channels frame = 3) (in_initialize i)]\<rparr>
            in case in_initialize i of
                 Some what \<Rightarrow>
                   (Break, l,
                    fail (Format ''Unable to initialize recording: %1%'' (ArgStr what)) s)
               | None \<Rightarrow>
                   (let l = l\<lparr>vwriter_initialized := True\<rparr>;
                        l = l\<lparr>recordFrames := True\<rparr>
                    in (Next, l, emitMessage (Plain ''Initialized video recording.'') s)))
         else (Next, l, s))
      else
        (if recordFrames l then
           (let s = s\<lparr>vwriter_calls := vwriter_calls s @ [Finalize (vwriter_initialized l)]\<rparr>;
                l = l\<lparr>vwriter_initialized := False\<rparr>;
                l = l\<lparr>recordFrames := False\<rparr>
            in (Next, l, emitMessage (Plain ''Recording finalized.'') s))
         else (Next, l, s)))"

text \<open>Lines 581-585: the display frame goes to the ring, the frame to the writer.\<close>

definition captureThread_publish :: "mat \<Rightarrow> mat \<Rightarrow> capture \<Rightarrow> scope \<Rightarrow> scope" where
  "captureThread_publish frame displayFrame l s =
     (let s = addFrameToBuffer displayFrame s
      in if recordFrames l then s\<lparr>vwriter_calls := vwriter_calls s @ [EncodeFrame frame]\<rparr>
         else s)"

text \<open>Lines 499-585: what an iteration does with a retrieved image.\<close>

definition captureThread_process ::
  "extern \<Rightarrow> iteration \<Rightarrow> bgr_image \<Rightarrow> capture \<Rightarrow> scope \<Rightarrow> flow \<times> capture \<times> scope" where
  "captureThread_process X i img l s =
     (let (l, s) = captureThread_telemetry X i l s;
          s = captureThread_resend s;
          (frame, displayFrame, s) = captureThread_visualize X img s
      in case captureThread_record i frame l s of
           (Break, l, s) \<Rightarrow> (Break, l, s)
         | (Next, l, s) \<Rightarrow> (Next, l, captureThread_publish frame displayFrame l s))"

text \<open>Lines 448-588: the body of the loop. \<open>Break\<close> leaves the loop; \<open>Next\<close> goes
  to the next test of \<^verbatim>\<open>running\<close> (the end of the body and \<^verbatim>\<open>continue\<close>).\<close>

definition captureThread_body ::
  "extern \<Rightarrow> iteration \<Rightarrow> capture \<Rightarrow> scope \<Rightarrow> flow \<times> capture \<times> scope" where
  "captureThread_body X i l s =
     (let s = captureThread_trigger X i s;
          s = s\<lparr>cam_calls := cam_calls s @ [CamGrab]\<rparr>
      in if \<not> in_grab i then (Break, l, fail (Plain ''Failed to grab frame.'') s)
         else
           (let s = s\<lparr>cam_calls := cam_calls s @ [CamRetrieve]\<rparr>
            in case in_retrieve i of
                 RetrieveThrew what \<Rightarrow>
                   (Next, l,
                    captureThread_dropped X i
                      (s\<lparr>cerr := cerr s @ [Format ''Caught OpenCV exception:%1%'' (ArgStr what)]\<rparr>))
               | RetrieveFailed \<Rightarrow> (Next, l, captureThread_dropped X i s)
               | Retrieved img \<Rightarrow> captureThread_process X i img l s))"

text \<open>One step of the thread: the test of \<^verbatim>\<open>while (self->d->running)\<close> and, when it
  holds, one iteration. A thread that has returned takes no step.\<close>

definition captureThread_step :: "extern \<Rightarrow> iteration \<Rightarrow> scope \<Rightarrow> scope" where
  "captureThread_step X i s =
     (case d_thread s of
        Some (Live l) \<Rightarrow>
          (if d_running s then
             (case captureThread_body X i l s of
                (Break, l', s') \<Rightarrow> captureThread_return l' s'
              | (Next, l', s') \<Rightarrow> s'\<lparr>d_thread := Some (Live l')\<rparr>)
           else captureThread_return l s)
      | _ \<Rightarrow> s)"

text \<open>The thread runs through a list of iterations.\<close>

fun captureThread_steps :: "extern \<Rightarrow> iteration list \<Rightarrow> scope \<Rightarrow> scope" where
  "captureThread_steps X [] s = s"
| "captureThread_steps X (i # is) s = captureThread_steps X is (captureThread_step X i s)"

subsection \<open>The life cycle\<close>

text \<open>\<^verbatim>\<open>d->thread->join()\<close>: the caller waits until the thread has returned. The
  thread stands at the test of its loop; \<^verbatim>\<open>running\<close> is false when this is called.\<close>

definition thread_join :: "scope \<Rightarrow> scope" where
  "thread_join s =
     (case d_thread s of
        Some (Live l) \<Rightarrow> captureThread_return l s
      | _ \<Rightarrow> s)"

text \<open>\<^verbatim>\<open>finishCaptureThread\<close>, lines 128-136.\<close>

definition finishCaptureThread :: "scope \<Rightarrow> scope" where
  "finishCaptureThread s =
     (if d_thread s \<noteq> None then
        (let s = s\<lparr>d_running := False\<rparr>;
             s = thread_join s
         in s\<lparr>d_thread := None\<rparr>)
      else s)"

text \<open>\<^verbatim>\<open>startCaptureThread\<close>, lines 121-126. \<open>now\<close> is the clock the new thread
  reads first.\<close>

definition startCaptureThread :: "int \<Rightarrow> scope \<Rightarrow> scope" where
  "startCaptureThread now s =
     (let s = finishCaptureThread s;
          s = s\<lparr>d_running := True\<rparr>
      in captureThread_enter now s)"

text \<open>\<^verbatim>\<open>stop\<close>, lines 252-257.\<close>

definition stop :: "scope \<Rightarrow> scope" where
  "stop s = finishCaptureThread (s\<lparr>d_running := False, d_recording := False\<rparr>)"

text \<open>\<^verbatim>\<open>connect\<close>, lines 201-227. \<open>opened\<close> is the answer of the device to
  \<^verbatim>\<open>open\<close>.\<close>

definition connect :: "extern \<Rightarrow> bool \<Rightarrow> scope \<Rightarrow> bool \<times> scope" where
  "connect X opened s =
     (if d_connected s then
        (False, s\<lparr>cerr := cerr s @ [Plain ''Tried to reconnect already connected camera.'']\<rparr>)
      else
        (let s = cam_open (d_scopeCamId s) opened s;
             s = cam_set CV_CAP_PROP_SATURATION (SET_CMOS_SETTINGS X) s;
             s = setExposure 100 s;
             s = setGain 32 s;
             s = setExcitation 1 s;
             s = s\<lparr>d_connected := True\<rparr>;
             s = setLed 0 s;
             s = emitMessage (Format ''Initialized camera %1%'' (ArgInt (d_scopeCamId s))) s
         in (True, s)))"

text \<open>\<^verbatim>\<open>disconnect\<close>, lines 229-234.\<close>

definition disconnect :: "scope \<Rightarrow> scope" where
  "disconnect s =
     (let s = stop s;
          s = cam_release s
      in emitMessage (Format ''Disconnected camera %1%'' (ArgInt (d_scopeCamId s))) s)"

text \<open>\<^verbatim>\<open>run\<close>, lines 236-250.\<close>

definition run :: "extern \<Rightarrow> bool \<Rightarrow> int \<Rightarrow> scope \<Rightarrow> bool \<times> scope" where
  "run X opened now s =
     (if \<not> d_connected s then (False, s)
      else if d_failed s then
        (let s = emitMessage (Plain ''Reconnecting to recover from previous failure.'') s;
             s = disconnect s
         in case connect X opened s of
              (False, s) \<Rightarrow> (False, s)
            | (True, s) \<Rightarrow> (True, startCaptureThread now s))
      else (True, startCaptureThread now s))"

text \<open>\<^verbatim>\<open>startRecording\<close>, lines 259-274. \<open>now\<close> is the clock of a thread started by
  \<^verbatim>\<open>run\<close>, \<open>start\<close> the clock read at line 270.\<close>

definition startRecording ::
  "extern \<Rightarrow> bool \<Rightarrow> int \<Rightarrow> int \<Rightarrow> string \<Rightarrow> scope \<Rightarrow> bool \<times> scope" where
  "startRecording X opened now start fname s =
     (if \<not> d_connected s then (False, s)
      else
        (case (if \<not> d_running s then run X opened now s else (True, s)) of
           (False, s) \<Rightarrow> (False, s)
         | (True, s) \<Rightarrow>
             (let s = (if fname \<noteq> [] then s\<lparr>d_videoFname := fname\<rparr> else s);
                  s = s\<lparr>d_recordStart := start\<rparr>;
                  s = s\<lparr>d_recording := True\<rparr>
              in (True, s))))"

text \<open>\<^verbatim>\<open>stopRecording\<close>, lines 276-279.\<close>

definition stopRecording :: "scope \<Rightarrow> scope" where
  "stopRecording s = s\<lparr>d_recording := False\<rparr>"

text \<open>\<^verbatim>\<open>setUseColor\<close> and \<^verbatim>\<open>setVisibleChannels\<close>, lines 301-311;
  \<^verbatim>\<open>setExternalRecordTrigger\<close>, lines 355-358.\<close>

definition setUseColor :: "bool \<Rightarrow> scope \<Rightarrow> scope" where
  "setUseColor color s = s\<lparr>d_useColor := color\<rparr>"

definition setVisibleChannels :: "bool \<Rightarrow> bool \<Rightarrow> bool \<Rightarrow> scope \<Rightarrow> scope" where
  "setVisibleChannels red green blue s =
     s\<lparr>d_showRed := red, d_showGreen := green, d_showBlue := blue\<rparr>"

definition setExternalRecordTrigger :: "bool \<Rightarrow> scope \<Rightarrow> scope" where
  "setExternalRecordTrigger enabled s = s\<lparr>d_checkRecTrigger := enabled\<rparr>"

text \<open>\<^verbatim>\<open>droppedFramesCount\<close>, lines 345-348.\<close>

definition droppedFramesCount :: "scope \<Rightarrow> nat" where
  "droppedFramesCount s = d_droppedFramesCount s"

subsection \<open>Observations\<close>

text \<open>The values a call \<open>setLed v\<close> sends on the LED channel
  (\<^verbatim>\<open>CV_CAP_PROP_HUE\<close>): the camera calls the call adds, restricted to that channel.\<close>

definition led_sent :: "int \<Rightarrow> scope \<Rightarrow> real list" where
  "led_sent v s =
     [x. CamSet p x \<leftarrow> drop (length (cam_calls s)) (cam_calls (setLed v s)),
         p = CV_CAP_PROP_HUE]"

text \<open>An iteration whose frame is lost: the grab succeeds and the retrieve fails or
  throws. An iteration whose frame is processed: grab and retrieve succeed and the
  video writer, if it is initialized in this iteration, does not throw.\<close>

definition dropped_frame :: "iteration \<Rightarrow> bool" where
  "dropped_frame i =
     (in_grab i \<and> (case in_retrieve i of Retrieved img \<Rightarrow> False | _ \<Rightarrow> True))"

definition processed_frame :: "iteration \<Rightarrow> bool" where
  "processed_frame i =
     (in_grab i \<and> (case in_retrieve i of Retrieved img \<Rightarrow> True | _ \<Rightarrow> False)
      \<and> in_initialize i = None)"

text \<open>An iteration that retrieves no frame: the grab fails, or the retrieve fails or
  throws.\<close>

definition no_frame :: "iteration \<Rightarrow> bool" where
  "no_frame i =
     (\<not> in_grab i \<or> (case in_retrieve i of Retrieved img \<Rightarrow> False | _ \<Rightarrow> True))"

text \<open>Counting the calls on the video writer: \<open>initialize\<close>, \<open>encodeFrame\<close>, and
  \<open>finalize\<close> on a writer that had been initialized.\<close>

fun is_Initialize :: "vwriter_call \<Rightarrow> bool" where
  "is_Initialize (Initialize f w h r c e) = True"
| "is_Initialize _ = False"

fun is_EncodeFrame :: "vwriter_call \<Rightarrow> bool" where
  "is_EncodeFrame (EncodeFrame f) = True"
| "is_EncodeFrame _ = False"

definition initialize_calls :: "scope \<Rightarrow> nat" where
  "initialize_calls s = length (filter is_Initialize (vwriter_calls s))"

definition encodeFrame_calls :: "scope \<Rightarrow> nat" where
  "encodeFrame_calls s = length (filter is_EncodeFrame (vwriter_calls s))"

definition finalized_recordings :: "scope \<Rightarrow> nat" where
  "finalized_recordings s = length (filter (\<lambda>c. c = Finalize True) (vwriter_calls s))"

subsection \<open>Concrete inputs\<close>

text \<open>Closed terms for the examples below: a memory of zeros, an instance of the
  external parameters, and the states a session goes through.\<close>

definition zero_memory :: scope where
  "zero_memory =
     \<lparr>d_thread = None, d_scopeCamId = 0, d_exposure = 0, d_gain = 0, d_excitation = 0,
      d_fps = 0, d_excitationX10 = False, d_videoFname = [], d_minFluor = 0, d_maxFluor = 0,
      d_minFluorDisplay = 0, d_maxFluorDisplay = 0, d_connected = False, d_running = False,
      d_recording = False, d_failed = False, d_checkRecTrigger = False, d_recordStart = 0,
      d_droppedFramesCount = 0, d_currentFPS = Inr 0, d_frameRing = cb_new 0,
      d_onMessageCallback = False, d_useColor = False, d_showRed = False,
      d_showGreen = False, d_showBlue = False, d_videoCodec = OtherCodec 0,
      d_videoContainer = OtherContainer 0, d_recordLossless = False,
      cam_opened = False, cam_calls = [], vwriter_calls = [], cout = [], cerr = [],
      callback_msgs = []\<rparr>"

definition example_extern :: extern where
  "example_extern =
     \<lparr>TRIG_RECORD_EXT = 2, SET_CMOS_SETTINGS = 3, droppedFrameImage = BGR [[(255, 0, 0)]],
      cvtColor_BGR2GRAY = map (map (\<lambda>(b, g, r). g)), minMaxLoc = (\<lambda>g. (0, 255)),
      convertTo_8U = (\<lambda>g lo hi. g), ticks_per_ms = 1000000\<rparr>"

definition example_frame :: "bgr_image \<Rightarrow> int \<Rightarrow> iteration" where
  "example_frame img clock =
     \<lparr>in_gpio = 0, in_trigger_clock = clock, in_grab = True, in_retrieve = Retrieved img,
      in_reopen = True, in_clock = clock, in_initialize = None\<rparr>"

definition example_drop :: iteration where
  "example_drop =
     \<lparr>in_gpio = 0, in_trigger_clock = 0, in_grab = True, in_retrieve = RetrieveFailed,
      in_reopen = True, in_clock = 0, in_initialize = None\<rparr>"

definition example_grab_failure :: iteration where
  "example_grab_failure =
     \<lparr>in_gpio = 0, in_trigger_clock = 0, in_grab = False, in_retrieve = RetrieveFailed,
      in_reopen = True, in_clock = 0, in_initialize = None\<rparr>"

definition connected_scope :: scope where
  "connected_scope = snd (connect example_extern True (MiniScope_new zero_memory))"

definition running_scope :: scope where
  "running_scope = snd (run example_extern True 0 connected_scope)"

definition failed_scope :: scope where
  "failed_scope = captureThread_step example_extern example_grab_failure running_scope"

definition red_hidden_recording_scope :: scope where
  "red_hidden_recording_scope =
     snd (startRecording example_extern True 0 0 ''out.mkv''
            (setVisibleChannels False True True (setUseColor True running_scope)))"

definition all_hidden_recording_scope :: scope where
  "all_hidden_recording_scope =
     snd (startRecording example_extern True 0 0 ''out.mkv''
            (setVisibleChannels False False False (setUseColor True running_scope)))"

section \<open>Properties\<close>

subsection \<open>Unfolding\<close>

lemmas api_defs = connect_def disconnect_def stop_def run_def startRecording_def stopRecording_def
  finishCaptureThread_def startCaptureThread_def thread_join_def captureThread_enter_def
  captureThread_return_def emitMessage_def fail_def cam_set_def cam_open_def cam_release_def
  setExposure_def setGain_def setLed_def setExcitation_def setUseColor_def setVisibleChannels_def

lemmas loop_defs = captureThread_step_def captureThread_body_def captureThread_trigger_def
  captureThread_dropped_def captureThread_telemetry_def captureThread_resend_def
  captureThread_visualize_def captureThread_record_def captureThread_publish_def
  captureThread_process_def addFrameToBuffer_def cb_push_back_def recording_def fps_of_delay_def

lemmas example_defs = zero_memory_def example_extern_def example_frame_def example_drop_def
  example_grab_failure_def connected_scope_def running_scope_def failed_scope_def MiniScope_new_def cb_new_def

subsection \<open>The control fields through every function\<close>

text \<open>What each function does to the fields that decide the control flow. With these
  rules the proofs below never unfold a function they call.\<close>

lemma emitMessage_control [simp]:
  "d_thread (emitMessage m s) = d_thread s"
  "d_connected (emitMessage m s) = d_connected s"
  "d_running (emitMessage m s) = d_running s"
  "d_recording (emitMessage m s) = d_recording s"
  "d_failed (emitMessage m s) = d_failed s"
  "d_checkRecTrigger (emitMessage m s) = d_checkRecTrigger s"
  "d_droppedFramesCount (emitMessage m s) = d_droppedFramesCount s"
  "vwriter_calls (emitMessage m s) = vwriter_calls s"
  "d_onMessageCallback (emitMessage m s) = d_onMessageCallback s"
  by (simp_all add: emitMessage_def)

lemma cam_set_control [simp]:
  "d_thread (cam_set p v s) = d_thread s"
  "d_connected (cam_set p v s) = d_connected s"
  "d_running (cam_set p v s) = d_running s"
  "d_recording (cam_set p v s) = d_recording s"
  "d_failed (cam_set p v s) = d_failed s"
  "d_checkRecTrigger (cam_set p v s) = d_checkRecTrigger s"
  "d_droppedFramesCount (cam_set p v s) = d_droppedFramesCount s"
  "vwriter_calls (cam_set p v s) = vwriter_calls s"
  "d_onMessageCallback (cam_set p v s) = d_onMessageCallback s"
  by (simp_all add: cam_set_def)

lemma cam_open_control [simp]:
  "d_thread (cam_open c ok s) = d_thread s"
  "d_connected (cam_open c ok s) = d_connected s"
  "d_running (cam_open c ok s) = d_running s"
  "d_recording (cam_open c ok s) = d_recording s"
  "d_failed (cam_open c ok s) = d_failed s"
  "d_checkRecTrigger (cam_open c ok s) = d_checkRecTrigger s"
  "d_droppedFramesCount (cam_open c ok s) = d_droppedFramesCount s"
  "vwriter_calls (cam_open c ok s) = vwriter_calls s"
  "d_onMessageCallback (cam_open c ok s) = d_onMessageCallback s"
  by (simp_all add: cam_open_def)

lemma cam_release_control [simp]:
  "d_thread (cam_release s) = d_thread s"
  "d_connected (cam_release s) = d_connected s"
  "d_running (cam_release s) = d_running s"
  "d_recording (cam_release s) = d_recording s"
  "d_failed (cam_release s) = d_failed s"
  "d_checkRecTrigger (cam_release s) = d_checkRecTrigger s"
  "d_droppedFramesCount (cam_release s) = d_droppedFramesCount s"
  "vwriter_calls (cam_release s) = vwriter_calls s"
  "d_onMessageCallback (cam_release s) = d_onMessageCallback s"
  by (simp_all add: cam_release_def)

lemma addFrameToBuffer_control [simp]:
  "d_thread (addFrameToBuffer f s) = d_thread s"
  "d_connected (addFrameToBuffer f s) = d_connected s"
  "d_running (addFrameToBuffer f s) = d_running s"
  "d_recording (addFrameToBuffer f s) = d_recording s"
  "d_failed (addFrameToBuffer f s) = d_failed s"
  "d_checkRecTrigger (addFrameToBuffer f s) = d_checkRecTrigger s"
  "d_droppedFramesCount (addFrameToBuffer f s) = d_droppedFramesCount s"
  "vwriter_calls (addFrameToBuffer f s) = vwriter_calls s"
  "d_onMessageCallback (addFrameToBuffer f s) = d_onMessageCallback s"
  by (simp_all add: addFrameToBuffer_def)

lemma setExposure_control [simp]:
  "d_thread (setExposure v s) = d_thread s"
  "d_connected (setExposure v s) = d_connected s"
  "d_running (setExposure v s) = d_running s"
  "d_recording (setExposure v s) = d_recording s"
  "d_failed (setExposure v s) = d_failed s"
  "d_checkRecTrigger (setExposure v s) = d_checkRecTrigger s"
  "d_droppedFramesCount (setExposure v s) = d_droppedFramesCount s"
  "vwriter_calls (setExposure v s) = vwriter_calls s"
  "d_onMessageCallback (setExposure v s) = d_onMessageCallback s"
  by (simp_all add: setExposure_def Let_def)

lemma setGain_control [simp]:
  "d_thread (setGain v s) = d_thread s"
  "d_connected (setGain v s) = d_connected s"
  "d_running (setGain v s) = d_running s"
  "d_recording (setGain v s) = d_recording s"
  "d_failed (setGain v s) = d_failed s"
  "d_checkRecTrigger (setGain v s) = d_checkRecTrigger s"
  "d_droppedFramesCount (setGain v s) = d_droppedFramesCount s"
  "vwriter_calls (setGain v s) = vwriter_calls s"
  "d_onMessageCallback (setGain v s) = d_onMessageCallback s"
  by (simp_all add: setGain_def Let_def)

lemma setLed_control [simp]:
  "d_thread (setLed v s) = d_thread s"
  "d_connected (setLed v s) = d_connected s"
  "d_running (setLed v s) = d_running s"
  "d_recording (setLed v s) = d_recording s"
  "d_failed (setLed v s) = d_failed s"
  "d_checkRecTrigger (setLed v s) = d_checkRecTrigger s"
  "d_droppedFramesCount (setLed v s) = d_droppedFramesCount s"
  "vwriter_calls (setLed v s) = vwriter_calls s"
  "d_onMessageCallback (setLed v s) = d_onMessageCallback s"
  by (simp_all add: setLed_def Let_def)

lemma setExcitation_control [simp]:
  "d_thread (setExcitation v s) = d_thread s"
  "d_connected (setExcitation v s) = d_connected s"
  "d_running (setExcitation v s) = d_running s"
  "d_recording (setExcitation v s) = d_recording s"
  "d_failed (setExcitation v s) = d_failed s"
  "d_checkRecTrigger (setExcitation v s) = d_checkRecTrigger s"
  "d_droppedFramesCount (setExcitation v s) = d_droppedFramesCount s"
  "vwriter_calls (setExcitation v s) = vwriter_calls s"
  "d_onMessageCallback (setExcitation v s) = d_onMessageCallback s"
  by (simp_all add: setExcitation_def)

lemma fail_control [simp]:
  "d_thread (fail m s) = d_thread s"
  "d_connected (fail m s) = d_connected s"
  "d_running (fail m s) = False"
  "d_recording (fail m s) = False"
  "d_failed (fail m s) = True"
  "d_checkRecTrigger (fail m s) = d_checkRecTrigger s"
  "d_droppedFramesCount (fail m s) = d_droppedFramesCount s"
  "vwriter_calls (fail m s) = vwriter_calls s"
  "d_onMessageCallback (fail m s) = d_onMessageCallback s"
  by (simp_all add: fail_def)

lemma captureThread_return_control [simp]:
  "d_thread (captureThread_return l s) = Some Returned"
  "d_connected (captureThread_return l s) = d_connected s"
  "d_running (captureThread_return l s) = d_running s"
  "d_recording (captureThread_return l s) = d_recording s"
  "d_failed (captureThread_return l s) = d_failed s"
  "d_checkRecTrigger (captureThread_return l s) = d_checkRecTrigger s"
  "d_droppedFramesCount (captureThread_return l s) = d_droppedFramesCount s"
  "vwriter_calls (captureThread_return l s) = vwriter_calls s @ [Finalize (vwriter_initialized l)]"
  "d_onMessageCallback (captureThread_return l s) = d_onMessageCallback s"
  by (simp_all add: captureThread_return_def)

lemma thread_join_control [simp]:
  "d_thread (thread_join s) = (case d_thread s of None \<Rightarrow> None | Some t \<Rightarrow> Some Returned)"
  "d_connected (thread_join s) = d_connected s"
  "d_running (thread_join s) = d_running s"
  "d_recording (thread_join s) = d_recording s"
  "d_failed (thread_join s) = d_failed s"
  "d_checkRecTrigger (thread_join s) = d_checkRecTrigger s"
  "d_droppedFramesCount (thread_join s) = d_droppedFramesCount s"
  "d_onMessageCallback (thread_join s) = d_onMessageCallback s"
  by (simp_all add: thread_join_def split: option.splits capture_thread.splits)

lemma finishCaptureThread_control [simp]:
  "d_thread (finishCaptureThread s) = None"
  "d_connected (finishCaptureThread s) = d_connected s"
  "d_running (finishCaptureThread s) = (d_running s \<and> d_thread s = None)"
  "d_recording (finishCaptureThread s) = d_recording s"
  "d_failed (finishCaptureThread s) = d_failed s"
  "d_checkRecTrigger (finishCaptureThread s) = d_checkRecTrigger s"
  "d_droppedFramesCount (finishCaptureThread s) = d_droppedFramesCount s"
  "d_onMessageCallback (finishCaptureThread s) = d_onMessageCallback s"
  by (simp_all add: finishCaptureThread_def Let_def)

lemma stop_control [simp]:
  "d_thread (stop s) = None"
  "d_connected (stop s) = d_connected s"
  "d_running (stop s) = False"
  "d_recording (stop s) = False"
  "d_failed (stop s) = d_failed s"
  "d_checkRecTrigger (stop s) = d_checkRecTrigger s"
  "d_droppedFramesCount (stop s) = d_droppedFramesCount s"
  "d_onMessageCallback (stop s) = d_onMessageCallback s"
  by (simp_all add: stop_def)

lemma disconnect_control [simp]:
  "d_thread (disconnect s) = None"
  "d_connected (disconnect s) = d_connected s"
  "d_running (disconnect s) = False"
  "d_recording (disconnect s) = False"
  "d_failed (disconnect s) = d_failed s"
  "d_checkRecTrigger (disconnect s) = d_checkRecTrigger s"
  "d_droppedFramesCount (disconnect s) = d_droppedFramesCount s"
  "d_onMessageCallback (disconnect s) = d_onMessageCallback s"
  by (simp_all add: disconnect_def Let_def)

lemma connect_connected:
  "d_connected s \<Longrightarrow>
   connect X opened s =
     (False, s\<lparr>cerr := cerr s @ [Plain ''Tried to reconnect already connected camera.'']\<rparr>)"
  by (simp add: connect_def)

lemma connect_outcome:
  "fst (connect X opened s) = (\<not> d_connected s)"
  "d_connected (snd (connect X opened s))"
  by (simp_all add: connect_def Let_def)

lemma captureThread_trigger_control [simp]:
  "d_thread (captureThread_trigger X i s) = d_thread s"
  "d_connected (captureThread_trigger X i s) = d_connected s"
  "d_running (captureThread_trigger X i s) = d_running s"
  "d_recording (captureThread_trigger X i s) =
     (if d_checkRecTrigger s then in_gpio i AND TRIG_RECORD_EXT X = TRIG_RECORD_EXT X
      else d_recording s)"
  "d_failed (captureThread_trigger X i s) = d_failed s"
  "d_checkRecTrigger (captureThread_trigger X i s) = d_checkRecTrigger s"
  "d_droppedFramesCount (captureThread_trigger X i s) = d_droppedFramesCount s"
  "vwriter_calls (captureThread_trigger X i s) = vwriter_calls s"
  "d_onMessageCallback (captureThread_trigger X i s) = d_onMessageCallback s"
  by (auto simp add: captureThread_trigger_def Let_def)

lemma captureThread_dropped_control [simp]:
  "d_thread (captureThread_dropped X i s) = d_thread s"
  "d_connected (captureThread_dropped X i s) = d_connected s"
  "d_running (captureThread_dropped X i s) =
     (d_running s \<and> \<not> 80 < (d_droppedFramesCount s + 1) mod 2 ^ 64)"
  "d_recording (captureThread_dropped X i s) = False"
  "d_failed (captureThread_dropped X i s) =
     (d_failed s \<or> 80 < (d_droppedFramesCount s + 1) mod 2 ^ 64)"
  "d_checkRecTrigger (captureThread_dropped X i s) = d_checkRecTrigger s"
  "d_droppedFramesCount (captureThread_dropped X i s) = (d_droppedFramesCount s + 1) mod 2 ^ 64"
  "vwriter_calls (captureThread_dropped X i s) = vwriter_calls s"
  "d_onMessageCallback (captureThread_dropped X i s) = d_onMessageCallback s"
  by (simp_all add: captureThread_dropped_def Let_def)

lemma captureThread_telemetry_control [simp]:
  "fst (captureThread_telemetry X i l s) = l\<lparr>currentTime := in_clock i\<rparr>"
  "d_thread (snd (captureThread_telemetry X i l s)) = d_thread s"
  "d_connected (snd (captureThread_telemetry X i l s)) = d_connected s"
  "d_running (snd (captureThread_telemetry X i l s)) = d_running s"
  "d_recording (snd (captureThread_telemetry X i l s)) = d_recording s"
  "d_failed (snd (captureThread_telemetry X i l s)) = d_failed s"
  "d_checkRecTrigger (snd (captureThread_telemetry X i l s)) = d_checkRecTrigger s"
  "d_droppedFramesCount (snd (captureThread_telemetry X i l s)) = d_droppedFramesCount s"
  "vwriter_calls (snd (captureThread_telemetry X i l s)) = vwriter_calls s"
  "d_onMessageCallback (snd (captureThread_telemetry X i l s)) = d_onMessageCallback s"
  by (simp_all add: captureThread_telemetry_def Let_def)

lemma captureThread_resend_control [simp]:
  "d_thread (captureThread_resend s) = d_thread s"
  "d_connected (captureThread_resend s) = d_connected s"
  "d_running (captureThread_resend s) = d_running s"
  "d_recording (captureThread_resend s) = d_recording s"
  "d_failed (captureThread_resend s) = d_failed s"
  "d_checkRecTrigger (captureThread_resend s) = d_checkRecTrigger s"
  "d_droppedFramesCount (captureThread_resend s) = 0"
  "vwriter_calls (captureThread_resend s) = vwriter_calls s"
  "d_onMessageCallback (captureThread_resend s) = d_onMessageCallback s"
  by (simp_all add: captureThread_resend_def Let_def)

lemma captureThread_visualize_control [simp]:
  "d_thread (snd (snd (captureThread_visualize X img s))) = d_thread s"
  "d_connected (snd (snd (captureThread_visualize X img s))) = d_connected s"
  "d_running (snd (snd (captureThread_visualize X img s))) = d_running s"
  "d_recording (snd (snd (captureThread_visualize X img s))) = d_recording s"
  "d_failed (snd (snd (captureThread_visualize X img s))) = d_failed s"
  "d_checkRecTrigger (snd (snd (captureThread_visualize X img s))) = d_checkRecTrigger s"
  "d_droppedFramesCount (snd (snd (captureThread_visualize X img s))) = d_droppedFramesCount s"
  "vwriter_calls (snd (snd (captureThread_visualize X img s))) = vwriter_calls s"
  "d_onMessageCallback (snd (snd (captureThread_visualize X img s))) = d_onMessageCallback s"
  by (simp_all add: captureThread_visualize_def Let_def split_beta)

lemma captureThread_steps_append:
  "captureThread_steps X (xs @ ys) s = captureThread_steps X ys (captureThread_steps X xs s)"
  by (induction xs arbitrary: s) simp_all

lemma step_dropped:
  assumes "d_thread s = Some (Live l)" and "d_running s" and "dropped_frame i"
  shows "d_thread (captureThread_step X i s) = Some (Live l)"
    and "d_droppedFramesCount (captureThread_step X i s) = (d_droppedFramesCount s + 1) mod 2 ^ 64"
    and "d_running (captureThread_step X i s) = (\<not> 80 < (d_droppedFramesCount s + 1) mod 2 ^ 64)"
    and "d_failed (captureThread_step X i s) = (d_failed s \<or> 80 < (d_droppedFramesCount s + 1) mod 2 ^ 64)"
    and "d_recording (captureThread_step X i s) = False"
  using assms
  by (cases "in_retrieve i";
      simp add: captureThread_step_def captureThread_body_def dropped_frame_def Let_def)+

lemma step_not_running:
  assumes "d_thread s = Some (Live l)" and "\<not> d_running s"
  shows "d_thread (captureThread_step X i s) = Some Returned"
  using assms by (simp add: captureThread_step_def)

lemma steps_dropped:
  assumes "\<forall>i \<in> set drops. dropped_frame i"
    and "d_thread s = Some (Live l)" and "d_running s"
    and "d_droppedFramesCount s + length drops \<le> 80"
  shows "d_thread (captureThread_steps X drops s) = Some (Live l)
    \<and> d_running (captureThread_steps X drops s)
    \<and> d_failed (captureThread_steps X drops s) = d_failed s
    \<and> d_droppedFramesCount (captureThread_steps X drops s) = d_droppedFramesCount s + length drops"
  using assms
proof (induction drops arbitrary: s)
  case Nil
  then show ?case by simp
next
  case (Cons i drops)
  let ?s = "captureThread_step X i s"
  from Cons.prems have i: "dropped_frame i" and small: "d_droppedFramesCount s + 1 \<le> 80"
    by simp_all
  from small have m: "(d_droppedFramesCount s + 1) mod 2 ^ 64 = d_droppedFramesCount s + 1"
    by simp
  note st = step_dropped [OF Cons.prems(2) Cons.prems(3) i, of X]
  have "d_thread (captureThread_steps X drops ?s) = Some (Live l)
    \<and> d_running (captureThread_steps X drops ?s)
    \<and> d_failed (captureThread_steps X drops ?s) = d_failed ?s
    \<and> d_droppedFramesCount (captureThread_steps X drops ?s) = d_droppedFramesCount ?s + length drops"
    using Cons.prems small by (intro Cons.IH) (simp_all add: st m)
  then show ?case using small by (simp add: st m)
qed

lemma record_flow:
  "in_initialize i = None \<Longrightarrow> fst (captureThread_record i frame l s) = Next"
  by (simp add: captureThread_record_def Let_def)

lemma record_control:
  assumes "in_initialize i = None"
  shows "d_thread (snd (snd (captureThread_record i frame l s))) = d_thread s"
    and "d_running (snd (snd (captureThread_record i frame l s))) = d_running s"
    and "d_recording (snd (snd (captureThread_record i frame l s))) = d_recording s"
    and "d_failed (snd (snd (captureThread_record i frame l s))) = d_failed s"
    and "d_checkRecTrigger (snd (snd (captureThread_record i frame l s))) = d_checkRecTrigger s"
    and "d_droppedFramesCount (snd (snd (captureThread_record i frame l s))) = d_droppedFramesCount s"
  using assms by (simp_all add: captureThread_record_def Let_def)

lemma publish_control [simp]:
  "d_thread (captureThread_publish frame disp l s) = d_thread s"
  "d_connected (captureThread_publish frame disp l s) = d_connected s"
  "d_running (captureThread_publish frame disp l s) = d_running s"
  "d_recording (captureThread_publish frame disp l s) = d_recording s"
  "d_failed (captureThread_publish frame disp l s) = d_failed s"
  "d_checkRecTrigger (captureThread_publish frame disp l s) = d_checkRecTrigger s"
  "d_droppedFramesCount (captureThread_publish frame disp l s) = d_droppedFramesCount s"
  "d_onMessageCallback (captureThread_publish frame disp l s) = d_onMessageCallback s"
  by (simp_all add: captureThread_publish_def Let_def)

lemma process_control:
  assumes "in_initialize i = None"
  shows "fst (captureThread_process X i img l s) = Next"
    and "d_thread (snd (snd (captureThread_process X i img l s))) = d_thread s"
    and "d_running (snd (snd (captureThread_process X i img l s))) = d_running s"
    and "d_recording (snd (snd (captureThread_process X i img l s))) = d_recording s"
    and "d_failed (snd (snd (captureThread_process X i img l s))) = d_failed s"
    and "d_checkRecTrigger (snd (snd (captureThread_process X i img l s))) = d_checkRecTrigger s"
    and "d_droppedFramesCount (snd (snd (captureThread_process X i img l s))) = 0"
  by (simp_all add: captureThread_process_def Let_def split_beta
      record_flow [OF assms] record_control [OF assms])

lemma body_retrieved:
  assumes "in_grab i" and "in_retrieve i = Retrieved img"
  shows "captureThread_body X i l s =
     captureThread_process X i img l
        (captureThread_trigger X i s
           \<lparr>cam_calls := cam_calls (captureThread_trigger X i s) @ [CamGrab, CamRetrieve]\<rparr>)"
  using assms by (simp add: captureThread_body_def Let_def)

lemma step_processed_eq:
  assumes "d_thread s = Some (Live l)" and "d_running s" and "processed_frame i"
    and "in_retrieve i = Retrieved img"
  shows "captureThread_step X i s =
     (snd (snd (captureThread_process X i img l
        (captureThread_trigger X i s
           \<lparr>cam_calls := cam_calls (captureThread_trigger X i s) @ [CamGrab, CamRetrieve]\<rparr>))))
     \<lparr>d_thread := Some (Live (fst (snd (captureThread_process X i img l
        (captureThread_trigger X i s
           \<lparr>cam_calls := cam_calls (captureThread_trigger X i s) @ [CamGrab, CamRetrieve]\<rparr>)))))\<rparr>"
proof -
  from assms(3) have grab: "in_grab i" and init: "in_initialize i = None"
    by (simp_all add: processed_frame_def)
  show ?thesis
    using assms(1,2) process_control(1) [OF init, of X img l
        "captureThread_trigger X i s
           \<lparr>cam_calls := cam_calls (captureThread_trigger X i s) @ [CamGrab, CamRetrieve]\<rparr>"]
    by (simp add: captureThread_step_def body_retrieved [OF grab assms(4)] split_beta)
qed

lemma step_processed:
  assumes "d_thread s = Some (Live l)" and "d_running s" and "processed_frame i"
  shows "d_droppedFramesCount (captureThread_step X i s) = 0"
    and "d_failed (captureThread_step X i s) = d_failed s"
    and "d_running (captureThread_step X i s)"
    and "\<exists>l'. d_thread (captureThread_step X i s) = Some (Live l')"
proof -
  from assms(3) obtain img where img: "in_retrieve i = Retrieved img"
    by (auto simp add: processed_frame_def split: retrieve_result.splits)
  from assms(3) have init: "in_initialize i = None"
    by (simp add: processed_frame_def)
  note eq = step_processed_eq [OF assms img, of X]
  show "d_droppedFramesCount (captureThread_step X i s) = 0"
    and "d_failed (captureThread_step X i s) = d_failed s"
    and "d_running (captureThread_step X i s)"
    and "\<exists>l'. d_thread (captureThread_step X i s) = Some (Live l')"
    using assms(2) by (simp_all add: eq process_control [OF init])
qed

lemma captureThread_return_filter:
  "\<forall>b. \<not> P (Finalize b) \<Longrightarrow>
   filter P (vwriter_calls (captureThread_return l s)) = filter P (vwriter_calls s)"
  by simp

lemma thread_join_filter:
  "\<forall>b. \<not> P (Finalize b) \<Longrightarrow>
   filter P (vwriter_calls (thread_join s)) = filter P (vwriter_calls s)"
  by (simp add: thread_join_def split: option.splits capture_thread.splits)

lemma finishCaptureThread_filter:
  "\<forall>b. \<not> P (Finalize b) \<Longrightarrow>
   filter P (vwriter_calls (finishCaptureThread s)) = filter P (vwriter_calls s)"
  by (simp add: finishCaptureThread_def Let_def thread_join_filter)

lemma stop_filter:
  "\<forall>b. \<not> P (Finalize b) \<Longrightarrow>
   filter P (vwriter_calls (stop s)) = filter P (vwriter_calls s)"
  by (simp add: stop_def finishCaptureThread_filter)

lemma disconnect_filter:
  "\<forall>b. \<not> P (Finalize b) \<Longrightarrow>
   filter P (vwriter_calls (disconnect s)) = filter P (vwriter_calls s)"
  by (simp add: disconnect_def Let_def stop_filter)

lemma startCaptureThread_control [simp]:
  "d_thread (startCaptureThread now s) =
     Some (Live \<lparr>currentTime = now, recordFrames = False, vwriter_initialized = False\<rparr>)"
  "d_connected (startCaptureThread now s) = d_connected s"
  "d_running (startCaptureThread now s) = True"
  "d_recording (startCaptureThread now s) = d_recording s"
  "d_failed (startCaptureThread now s) = d_failed s"
  "d_checkRecTrigger (startCaptureThread now s) = d_checkRecTrigger s"
  "d_droppedFramesCount (startCaptureThread now s) = 0"
  "d_onMessageCallback (startCaptureThread now s) = d_onMessageCallback s"
  by (simp_all add: startCaptureThread_def captureThread_enter_def Let_def)

lemma startCaptureThread_filter:
  "\<forall>b. \<not> P (Finalize b) \<Longrightarrow>
   filter P (vwriter_calls (startCaptureThread now s)) = filter P (vwriter_calls s)"
  by (simp add: startCaptureThread_def captureThread_enter_def Let_def finishCaptureThread_filter)

lemma connect_control [simp]:
  "d_thread (snd (connect X opened s)) = d_thread s"
  "d_running (snd (connect X opened s)) = d_running s"
  "d_recording (snd (connect X opened s)) = d_recording s"
  "d_failed (snd (connect X opened s)) = d_failed s"
  "d_checkRecTrigger (snd (connect X opened s)) = d_checkRecTrigger s"
  "d_droppedFramesCount (snd (connect X opened s)) = d_droppedFramesCount s"
  "vwriter_calls (snd (connect X opened s)) = vwriter_calls s"
  "d_onMessageCallback (snd (connect X opened s)) = d_onMessageCallback s"
  by (simp_all add: connect_def Let_def)

lemma run_filter:
  "\<forall>b. \<not> P (Finalize b) \<Longrightarrow>
   filter P (vwriter_calls (snd (run X opened now s))) = filter P (vwriter_calls s)"
  by (simp add: run_def Let_def split_beta bool.case_eq_if startCaptureThread_filter
      disconnect_filter)

lemma run_checkRecTrigger [simp]:
  "d_checkRecTrigger (snd (run X opened now s)) = d_checkRecTrigger s"
  by (simp add: run_def Let_def split_beta bool.case_eq_if)

lemma startRecording_filter:
  "\<forall>b. \<not> P (Finalize b) \<Longrightarrow>
   filter P (vwriter_calls (snd (startRecording X opened now start fname s)))
     = filter P (vwriter_calls s)"
  by (simp add: startRecording_def Let_def split_beta bool.case_eq_if run_filter)

lemma startRecording_checkRecTrigger [simp]:
  "d_checkRecTrigger (snd (startRecording X opened now start fname s)) = d_checkRecTrigger s"
  by (simp add: startRecording_def Let_def split_beta bool.case_eq_if)

lemma startRecording_running:
  assumes "d_connected s" and "d_running s"
  shows "fst (startRecording X opened now start fname s)"
    and "d_thread (snd (startRecording X opened now start fname s)) = d_thread s"
    and "d_running (snd (startRecording X opened now start fname s))"
    and "d_recording (snd (startRecording X opened now start fname s))"
    and "vwriter_calls (snd (startRecording X opened now start fname s)) = vwriter_calls s"
  using assms by (simp_all add: startRecording_def Let_def)

lemma process_quiet:
  assumes "\<not> d_recording s"
  shows "fst (captureThread_process X i img l s) = Next"
    and "\<not> d_recording (snd (snd (captureThread_process X i img l s)))"
    and "d_checkRecTrigger (snd (snd (captureThread_process X i img l s))) = d_checkRecTrigger s"
    and "filter is_Initialize (vwriter_calls (snd (snd (captureThread_process X i img l s))))
           = filter is_Initialize (vwriter_calls s)"
    and "filter is_EncodeFrame (vwriter_calls (snd (snd (captureThread_process X i img l s))))
           = filter is_EncodeFrame (vwriter_calls s)"
  using assms
  by (simp_all add: captureThread_process_def captureThread_record_def
      captureThread_publish_def recording_def Let_def split_beta)

lemma step_quiet:
  assumes "\<not> d_recording s" and "\<not> d_checkRecTrigger s"
  shows "\<not> d_recording (captureThread_step X i s)"
    and "\<not> d_checkRecTrigger (captureThread_step X i s)"
    and "filter is_Initialize (vwriter_calls (captureThread_step X i s))
           = filter is_Initialize (vwriter_calls s)"
    and "filter is_EncodeFrame (vwriter_calls (captureThread_step X i s))
           = filter is_EncodeFrame (vwriter_calls s)"
proof -
  let ?goal = "\<not> d_recording (captureThread_step X i s)
    \<and> \<not> d_checkRecTrigger (captureThread_step X i s)
    \<and> filter is_Initialize (vwriter_calls (captureThread_step X i s))
           = filter is_Initialize (vwriter_calls s)
    \<and> filter is_EncodeFrame (vwriter_calls (captureThread_step X i s))
           = filter is_EncodeFrame (vwriter_calls s)"
  have ?goal
  proof (cases "d_thread s")
    case None
    with assms show ?thesis by (simp add: captureThread_step_def)
  next
    case (Some t)
    show ?thesis
    proof (cases t)
      case Returned
      with Some assms show ?thesis by (simp add: captureThread_step_def)
    next
      case (Live l)
      show ?thesis
      proof (cases "d_running s \<and> in_grab i")
        case False
        with Some Live assms show ?thesis
          by (auto simp add: captureThread_step_def captureThread_body_def Let_def)
      next
        case True
        show ?thesis
        proof (cases "in_retrieve i")
          case (Retrieved img)
          let ?s = "captureThread_trigger X i s
             \<lparr>cam_calls := cam_calls (captureThread_trigger X i s) @ [CamGrab, CamRetrieve]\<rparr>"
          from assms have q: "\<not> d_recording ?s" by simp
          note pq = process_quiet [OF q, of X i img l]
          from True Retrieved have body: "captureThread_body X i l s =
              captureThread_process X i img l ?s"
            by (simp add: body_retrieved)
          from Some Live True assms show ?thesis
            by (simp add: captureThread_step_def body split_beta pq)
        next
          case RetrieveFailed
          with Some Live True assms show ?thesis
            by (simp add: captureThread_step_def captureThread_body_def Let_def)
        next
          case (RetrieveThrew what)
          with Some Live True assms show ?thesis
            by (simp add: captureThread_step_def captureThread_body_def Let_def)
        qed
      qed
    qed
  qed
  then show "\<not> d_recording (captureThread_step X i s)"
    and "\<not> d_checkRecTrigger (captureThread_step X i s)"
    and "filter is_Initialize (vwriter_calls (captureThread_step X i s))
           = filter is_Initialize (vwriter_calls s)"
    and "filter is_EncodeFrame (vwriter_calls (captureThread_step X i s))
           = filter is_EncodeFrame (vwriter_calls s)"
    by simp_all
qed

lemma steps_quiet:
  assumes "\<not> d_recording s" and "\<not> d_checkRecTrigger s"
  shows "filter is_Initialize (vwriter_calls (captureThread_steps X is s))
           = filter is_Initialize (vwriter_calls s)
    \<and> filter is_EncodeFrame (vwriter_calls (captureThread_steps X is s))
           = filter is_EncodeFrame (vwriter_calls s)"
  using assms
proof (induction "is" arbitrary: s)
  case Nil
  then show ?case by simp
next
  case (Cons i "is")
  note q = step_quiet [OF Cons.prems, of X i]
  from Cons.IH [OF q(1) q(2)] show ?case by (simp add: q)
qed

lemma step_no_frame:
  assumes "no_frame i"
  shows "d_checkRecTrigger (captureThread_step X i s) = d_checkRecTrigger s"
    and "filter is_Initialize (vwriter_calls (captureThread_step X i s))
           = filter is_Initialize (vwriter_calls s)"
    and "filter is_EncodeFrame (vwriter_calls (captureThread_step X i s))
           = filter is_EncodeFrame (vwriter_calls s)"
  using assms
  by (cases "in_retrieve i";
      simp add: no_frame_def captureThread_step_def captureThread_body_def Let_def
        split: option.splits capture_thread.splits)+

lemma steps_no_frame:
  assumes "\<forall>i \<in> set mid. no_frame i"
  shows "d_checkRecTrigger (captureThread_steps X mid s) = d_checkRecTrigger s
    \<and> filter is_Initialize (vwriter_calls (captureThread_steps X mid s))
           = filter is_Initialize (vwriter_calls s)
    \<and> filter is_EncodeFrame (vwriter_calls (captureThread_steps X mid s))
           = filter is_EncodeFrame (vwriter_calls s)"
  using assms
proof (induction mid arbitrary: s)
  case Nil
  then show ?case by simp
next
  case (Cons i mid)
  then have i: "no_frame i" and rest: "\<forall>i \<in> set mid. no_frame i" by simp_all
  from Cons.IH [OF rest, of "captureThread_step X i s"] show ?case
    by (simp add: step_no_frame [OF i])
qed

lemma process_recording:
  assumes "in_initialize i = None" and "d_running s" and "d_recording s"
    and "recordFrames l = vwriter_initialized l"
  shows "recordFrames (fst (snd (captureThread_process X i img l s)))"
    and "vwriter_initialized (fst (snd (captureThread_process X i img l s)))"
    and "length (filter is_Initialize (vwriter_calls (snd (snd (captureThread_process X i img l s)))))
           = length (filter is_Initialize (vwriter_calls s))
             + (if vwriter_initialized l then 0 else 1)"
    and "length (filter is_EncodeFrame (vwriter_calls (snd (snd (captureThread_process X i img l s)))))
           = length (filter is_EncodeFrame (vwriter_calls s)) + 1"
    and "filter (\<lambda>c. c = Finalize True) (vwriter_calls (snd (snd (captureThread_process X i img l s))))
           = filter (\<lambda>c. c = Finalize True) (vwriter_calls s)"
  using assms
  by (simp_all add: captureThread_process_def captureThread_record_def
      captureThread_publish_def recording_def Let_def split_beta)

lemma process_stopping:
  assumes "\<not> d_recording s" and "recordFrames l" and "vwriter_initialized l"
  shows "\<not> recordFrames (fst (snd (captureThread_process X i img l s)))"
    and "\<not> vwriter_initialized (fst (snd (captureThread_process X i img l s)))"
    and "length (filter (\<lambda>c. c = Finalize True)
           (vwriter_calls (snd (snd (captureThread_process X i img l s)))))
           = length (filter (\<lambda>c. c = Finalize True) (vwriter_calls s)) + 1"
  using assms
  by (simp_all add: captureThread_process_def captureThread_record_def
      captureThread_publish_def recording_def Let_def split_beta)

lemma step_recording:
  assumes "d_thread s = Some (Live l)" and "d_running s" and "d_recording s"
    and "\<not> d_checkRecTrigger s" and "processed_frame i"
    and "recordFrames l = vwriter_initialized l"
  shows "\<exists>l'. d_thread (captureThread_step X i s) = Some (Live l')
           \<and> recordFrames l' \<and> vwriter_initialized l'"
    and "d_running (captureThread_step X i s)"
    and "d_recording (captureThread_step X i s)"
    and "\<not> d_checkRecTrigger (captureThread_step X i s)"
    and "initialize_calls (captureThread_step X i s)
           = initialize_calls s + (if vwriter_initialized l then 0 else 1)"
    and "encodeFrame_calls (captureThread_step X i s) = encodeFrame_calls s + 1"
    and "finalized_recordings (captureThread_step X i s) = finalized_recordings s"
proof -
  from assms(5) obtain img where img: "in_retrieve i = Retrieved img"
    by (auto simp add: processed_frame_def split: retrieve_result.splits)
  from assms(5) have init: "in_initialize i = None"
    by (simp add: processed_frame_def)
  let ?s = "captureThread_trigger X i s
     \<lparr>cam_calls := cam_calls (captureThread_trigger X i s) @ [CamGrab, CamRetrieve]\<rparr>"
  note eq = step_processed_eq [OF assms(1,2,5) img, of X]
  have run: "d_running ?s" and rec: "d_recording ?s"
    using assms(2,3,4) by simp_all
  note pr = process_recording [OF init run rec assms(6), of X img]
  note pc = process_control [OF init, of X img l ?s]
  show "\<exists>l'. d_thread (captureThread_step X i s) = Some (Live l')
           \<and> recordFrames l' \<and> vwriter_initialized l'"
    and "d_running (captureThread_step X i s)"
    and "d_recording (captureThread_step X i s)"
    and "\<not> d_checkRecTrigger (captureThread_step X i s)"
    and "initialize_calls (captureThread_step X i s)
           = initialize_calls s + (if vwriter_initialized l then 0 else 1)"
    and "encodeFrame_calls (captureThread_step X i s) = encodeFrame_calls s + 1"
    and "finalized_recordings (captureThread_step X i s) = finalized_recordings s"
    using assms(2,3,4)
    by (simp_all add: eq pr pc initialize_calls_def encodeFrame_calls_def
        finalized_recordings_def)
qed

lemma step_stopping:
  assumes "d_thread s = Some (Live l)" and "d_running s" and "\<not> d_recording s"
    and "\<not> d_checkRecTrigger s" and "processed_frame i"
    and "recordFrames l" and "vwriter_initialized l"
  shows "initialize_calls (captureThread_step X i s) = initialize_calls s"
    and "encodeFrame_calls (captureThread_step X i s) = encodeFrame_calls s"
    and "finalized_recordings (captureThread_step X i s) = finalized_recordings s + 1"
proof -
  from assms(5) obtain img where img: "in_retrieve i = Retrieved img"
    by (auto simp add: processed_frame_def split: retrieve_result.splits)
  let ?s = "captureThread_trigger X i s
     \<lparr>cam_calls := cam_calls (captureThread_trigger X i s) @ [CamGrab, CamRetrieve]\<rparr>"
  note eq = step_processed_eq [OF assms(1,2,5) img, of X]
  have rec: "\<not> d_recording ?s"
    using assms(3,4) by simp
  note ps = process_stopping [OF rec assms(6,7), of X i img]
  note sq = step_quiet [OF assms(3,4), of X i]
  show "initialize_calls (captureThread_step X i s) = initialize_calls s"
    and "encodeFrame_calls (captureThread_step X i s) = encodeFrame_calls s"
    by (simp_all add: sq initialize_calls_def encodeFrame_calls_def)
  show "finalized_recordings (captureThread_step X i s) = finalized_recordings s + 1"
    by (simp add: eq ps finalized_recordings_def)
qed

lemma steps_recording:
  assumes "\<forall>i \<in> set frames. processed_frame i"
    and "d_thread s = Some (Live l)" and "d_running s" and "d_recording s"
    and "\<not> d_checkRecTrigger s" and "recordFrames l = vwriter_initialized l"
  shows "(\<exists>l'. d_thread (captureThread_steps X frames s) = Some (Live l')
            \<and> recordFrames l' = vwriter_initialized l'
            \<and> (frames \<noteq> [] \<longrightarrow> recordFrames l'))
    \<and> d_running (captureThread_steps X frames s)
    \<and> d_recording (captureThread_steps X frames s)
    \<and> \<not> d_checkRecTrigger (captureThread_steps X frames s)
    \<and> initialize_calls (captureThread_steps X frames s)
        = initialize_calls s + (if frames = [] \<or> vwriter_initialized l then 0 else 1)
    \<and> encodeFrame_calls (captureThread_steps X frames s) = encodeFrame_calls s + length frames
    \<and> finalized_recordings (captureThread_steps X frames s) = finalized_recordings s"
  using assms
proof (induction frames arbitrary: s l)
  case Nil
  then show ?case by simp
next
  case (Cons i frames)
  let ?s = "captureThread_step X i s"
  from Cons.prems(1) have i: "processed_frame i" and rest: "\<forall>i \<in> set frames. processed_frame i"
    by simp_all
  note st = step_recording [OF Cons.prems(2,3,4,5) i Cons.prems(6), of X]
  from st(1) obtain l' where l': "d_thread ?s = Some (Live l')"
    "recordFrames l'" "vwriter_initialized l'"
    by blast
  from l' have inv: "recordFrames l' = vwriter_initialized l'" by simp
  note ih = Cons.IH [OF rest l'(1) st(2) st(3) st(4) inv]
  from ih obtain l'' where l'': "d_thread (captureThread_steps X frames ?s) = Some (Live l'')"
    "recordFrames l'' = vwriter_initialized l''" "frames \<noteq> [] \<longrightarrow> recordFrames l''"
    by blast
  have act: "recordFrames l''"
  proof (cases frames)
    case Nil
    with l' l'' show ?thesis by simp
  next
    case (Cons a list)
    with l'' show ?thesis by simp
  qed
  have "\<exists>l'. d_thread (captureThread_steps X (i # frames) s) = Some (Live l')
            \<and> recordFrames l' = vwriter_initialized l'
            \<and> (i # frames \<noteq> [] \<longrightarrow> recordFrames l')"
    using l'' act by simp
  then show ?case
    using ih l'(3) by (simp add: st(5,6,7))
qed

lemma startCaptureThread_calls:
  "d_thread s = None \<Longrightarrow> vwriter_calls (startCaptureThread now s) = vwriter_calls s"
  by (simp add: startCaptureThread_def finishCaptureThread_def captureThread_enter_def)

lemma running_scope_facts:
  "d_connected running_scope" "d_running running_scope" "\<not> d_failed running_scope"
  "\<not> d_recording running_scope" "\<not> d_checkRecTrigger running_scope"
  "d_thread running_scope =
     Some (Live \<lparr>currentTime = 0, recordFrames = False, vwriter_initialized = False\<rparr>)"
  "d_droppedFramesCount running_scope = 0" "vwriter_calls running_scope = []"
  by (simp_all add: running_scope_def connected_scope_def run_def connect_outcome
      startCaptureThread_calls MiniScope_new_def zero_memory_def)

lemma failed_scope_facts:
  "d_connected failed_scope" "d_failed failed_scope" "d_thread failed_scope = Some Returned"
  by (simp_all add: failed_scope_def captureThread_step_def captureThread_body_def
      example_grab_failure_def running_scope_facts Let_def)

subsection \<open>Recovering from a failure\<close>

lemma disconnect_device:
  "cam_calls (disconnect s) = cam_calls s @ [CamRelease]"
  "cerr (disconnect s) = cerr s"
  by (simp_all add: disconnect_def stop_def finishCaptureThread_def thread_join_def
      captureThread_return_def cam_release_def emitMessage_def Let_def
      split: option.splits capture_thread.splits)

lemma emitMessage_device:
  "cam_calls (emitMessage m s) = cam_calls s"
  "cerr (emitMessage m s) = cerr s"
  by (simp_all add: emitMessage_def)

text \<open>Claim C1 (the source does not do what the claim says). On a connected controller
  in the failed state \<open>run\<close> disconnects (the camera is released) and then calls
  \<open>connect\<close>. But \<open>disconnect\<close> leaves \<open>connected\<close> set, so \<open>connect\<close> answers
  that the camera is already connected: whatever the device would answer, \<open>run\<close>
  returns false, \<open>failed\<close> stays set, the camera is never opened again and no capture
  loop is started.\<close>

theorem run_failed_never_recovers:
  assumes "d_connected s" and "d_failed s"
  shows "fst (run X opened now s) = False
    \<and> d_failed (snd (run X opened now s))
    \<and> \<not> d_running (snd (run X opened now s))
    \<and> d_thread (snd (run X opened now s)) = None
    \<and> d_connected (snd (run X opened now s))
    \<and> cam_calls (snd (run X opened now s)) = cam_calls s @ [CamRelease]
    \<and> cerr (snd (run X opened now s))
        = cerr s @ [Plain ''Tried to reconnect already connected camera.'']"
  using assms
  by (simp add: run_def Let_def connect_connected disconnect_device emitMessage_device)

theorem run_failed_never_recovers_witness:
  "d_connected failed_scope \<and> d_failed failed_scope
   \<and> \<not> fst (run example_extern True 1 failed_scope)
   \<and> d_failed (snd (run example_extern True 1 failed_scope))
   \<and> \<not> d_running (snd (run example_extern True 1 failed_scope))"
  using run_failed_never_recovers [of failed_scope example_extern True 1] failed_scope_facts
  by simp

subsection \<open>Connecting\<close>

text \<open>Claim C2, as amended. \<open>connect\<close> returns failure when the controller is already
  connected. Otherwise it returns success and leaves \<open>connected = true\<close>, whatever the
  device answers to \<open>open\<close>: the answer is not read.\<close>

theorem connect_result:
  "fst (connect X opened s) = (\<not> d_connected s)
   \<and> d_connected (snd (connect X opened s))
   \<and> cam_opened (snd (connect X opened s)) = (if d_connected s then cam_opened s else opened)"
  by (simp add: connect_def Let_def setLed_def cam_set_def
      setExposure_def setGain_def setExcitation_def cam_open_def emitMessage_def)

text \<open>Claim C2 as stated fails when the device cannot be opened: \<open>connect\<close> returns
  success and \<open>connected\<close> is true, with a camera that is not open.\<close>

theorem connect_open_failure_counterexample:
  "fst (connect example_extern False (MiniScope_new zero_memory))
   \<and> d_connected (snd (connect example_extern False (MiniScope_new zero_memory)))
   \<and> \<not> cam_opened (snd (connect example_extern False (MiniScope_new zero_memory)))"
  by (simp add: connect_def Let_def MiniScope_new_def zero_memory_def
      setLed_def cam_set_def setExposure_def setGain_def setExcitation_def cam_open_def
      emitMessage_def)

subsection \<open>The ceiling on dropped frames\<close>

text \<open>Claim C3. Let the capture loop run with no frame dropped since the last success
  (at its start, for one), and let 81 iterations in a row lose their frame (the grab
  succeeds, the retrieve fails or throws). After any \<open>n \<le> 80\<close> of them the loop still
  runs, \<open>failed\<close> is unchanged and the counter is \<open>n\<close>. After all 81 \<open>failed\<close> is set,
  \<open>running\<close> and \<open>recording\<close> are cleared, and the next test of the loop makes the
  thread return. A processed frame after \<open>n \<le> 80\<close> lost ones sets the counter to zero,
  leaves \<open>failed\<close> unchanged and keeps the loop running. (A processed frame is one whose
  iteration has no other fault: the grab and the retrieve succeed and the video writer
  does not throw.)\<close>

theorem drop_ceiling:
  assumes "d_thread s = Some (Live l)" and "d_running s" and "d_droppedFramesCount s = 0"
    and "\<forall>i \<in> set drops. dropped_frame i" and "length drops = 81"
    and "processed_frame j" and "n \<le> 80"
  shows "(d_running (captureThread_steps X (take n drops) s)
          \<and> d_failed (captureThread_steps X (take n drops) s) = d_failed s
          \<and> d_thread (captureThread_steps X (take n drops) s) = Some (Live l)
          \<and> droppedFramesCount (captureThread_steps X (take n drops) s) = n)
       \<and> (d_failed (captureThread_steps X drops s)
          \<and> \<not> d_running (captureThread_steps X drops s)
          \<and> \<not> d_recording (captureThread_steps X drops s)
          \<and> droppedFramesCount (captureThread_steps X drops s) = 81
          \<and> d_thread (captureThread_step X k (captureThread_steps X drops s)) = Some Returned)
       \<and> (droppedFramesCount (captureThread_steps X (take n drops @ [j]) s) = 0
          \<and> d_failed (captureThread_steps X (take n drops @ [j]) s) = d_failed s
          \<and> d_running (captureThread_steps X (take n drops @ [j]) s)
          \<and> (\<exists>l'. d_thread (captureThread_steps X (take n drops @ [j]) s) = Some (Live l')))"
proof -
  have few: "d_thread (captureThread_steps X (take m drops) s) = Some (Live l)
      \<and> d_running (captureThread_steps X (take m drops) s)
      \<and> d_failed (captureThread_steps X (take m drops) s) = d_failed s
      \<and> d_droppedFramesCount (captureThread_steps X (take m drops) s) = m"
    if "m \<le> 80" for m
  proof -
    have "\<forall>i \<in> set (take m drops). dropped_frame i"
      using assms(4) by (auto dest: in_set_takeD)
    moreover have "d_droppedFramesCount s + length (take m drops) \<le> 80"
      using that assms(3,5) by simp
    ultimately show ?thesis
      using steps_dropped [of "take m drops" s l X] assms(1,2,3,5) that by simp
  qed
  let ?s80 = "captureThread_steps X (take 80 drops) s"
  have "take (Suc 80) drops = take 80 drops @ [drops ! 80]"
    using assms(5) by (intro take_Suc_conv_app_nth) simp
  then have parts: "drops = take 80 drops @ [drops ! 80]"
    using assms(5) by simp
  have last: "dropped_frame (drops ! 80)"
    using assms(4,5) by simp
  have s81: "captureThread_steps X drops s = captureThread_step X (drops ! 80) ?s80"
    by (subst parts) (simp add: captureThread_steps_append)
  from few [of 80] have f80: "d_thread ?s80 = Some (Live l)" "d_running ?s80"
    "d_failed ?s80 = d_failed s" "d_droppedFramesCount ?s80 = 80"
    by simp_all
  note st = step_dropped [OF f80(1) f80(2) last, of X]
  have many: "d_failed (captureThread_steps X drops s)
          \<and> \<not> d_running (captureThread_steps X drops s)
          \<and> \<not> d_recording (captureThread_steps X drops s)
          \<and> droppedFramesCount (captureThread_steps X drops s) = 81
          \<and> d_thread (captureThread_step X k (captureThread_steps X drops s)) = Some Returned"
    using st f80 by (simp add: s81 droppedFramesCount_def step_not_running)
  from few [OF assms(7)]
  have a: "d_thread (captureThread_steps X (take n drops) s) = Some (Live l)"
    and b: "d_running (captureThread_steps X (take n drops) s)"
    and c: "d_failed (captureThread_steps X (take n drops) s) = d_failed s"
    by simp_all
  have reset: "droppedFramesCount (captureThread_steps X (take n drops @ [j]) s) = 0
          \<and> d_failed (captureThread_steps X (take n drops @ [j]) s) = d_failed s
          \<and> d_running (captureThread_steps X (take n drops @ [j]) s)
          \<and> (\<exists>l'. d_thread (captureThread_steps X (take n drops @ [j]) s) = Some (Live l'))"
    using step_processed [OF a b assms(6), of X] c
    by (simp add: captureThread_steps_append droppedFramesCount_def)
  show ?thesis using few [OF assms(7)] many reset by (simp add: droppedFramesCount_def)
qed

theorem drop_ceiling_witness:
  "d_thread running_scope =
     Some (Live \<lparr>currentTime = 0, recordFrames = False, vwriter_initialized = False\<rparr>)
   \<and> d_running running_scope \<and> d_droppedFramesCount running_scope = 0
   \<and> dropped_frame example_drop \<and> length (replicate 81 example_drop) = 81
   \<and> processed_frame (example_frame [[(1, 2, 3)]] 50000000) \<and> (80 :: nat) \<le> 80
   \<and> d_running (captureThread_steps example_extern (take 80 (replicate 81 example_drop))
        running_scope)
   \<and> droppedFramesCount (captureThread_steps example_extern
        (take 80 (replicate 81 example_drop)) running_scope) = 80
   \<and> d_failed (captureThread_steps example_extern (replicate 81 example_drop) running_scope)
   \<and> \<not> d_running (captureThread_steps example_extern (replicate 81 example_drop) running_scope)
   \<and> droppedFramesCount (captureThread_steps example_extern
        (take 80 (replicate 81 example_drop) @ [example_frame [[(1, 2, 3)]] 50000000])
        running_scope) = 0
   \<and> \<not> d_failed (captureThread_steps example_extern
        (take 80 (replicate 81 example_drop) @ [example_frame [[(1, 2, 3)]] 50000000])
        running_scope)"
proof -
  have h4: "\<forall>i \<in> set (replicate 81 example_drop). dropped_frame i"
    by (simp add: dropped_frame_def example_drop_def)
  have h5: "length (replicate 81 example_drop) = 81"
    by simp
  have h6: "processed_frame (example_frame [[(1, 2, 3)]] 50000000)"
    by (simp add: processed_frame_def example_frame_def)
  have h7: "(80 :: nat) \<le> 80"
    by simp
  have d: "dropped_frame example_drop"
    by (simp add: dropped_frame_def example_drop_def)
  from drop_ceiling [OF running_scope_facts(6) running_scope_facts(2) running_scope_facts(7)
      h4 h5 h6 h7, of example_extern example_drop]
  show ?thesis
    using running_scope_facts d h6 by simp
qed

subsection \<open>The visible channels\<close>

text \<open>Claim C4 (the source does not do what the claim says). In color mode with the
  red channel hidden, while recording, a frame whose one pixel is (blue 10, green 20,
  red 30) is retrieved. The frame pushed into the ring still has its red value: the
  display copy is taken before the channels are zeroed and is not touched after. The
  frame given to the video writer has red zeroed: the planes are merged back into the
  frame that is recorded. With all three channels hidden the transform is skipped, and
  neither frame is black.\<close>

theorem channel_transform_reaches_recorder_not_display:
  "cb_items (d_frameRing (captureThread_step example_extern
       (example_frame [[(10, 20, 30)]] 5000000) red_hidden_recording_scope))
     = [BGR [[(10, 20, 30)]]]
   \<and> vwriter_calls (captureThread_step example_extern
       (example_frame [[(10, 20, 30)]] 5000000) red_hidden_recording_scope)
     = [SetCodec VP9, SetContainer Matroska, SetLossless False,
        Initialize ''out.mkv'' 1 1 20 True None, EncodeFrame (BGR [[(10, 20, 0)]])]
   \<and> cb_items (d_frameRing (captureThread_step example_extern
       (example_frame [[(10, 20, 30)]] 5000000) all_hidden_recording_scope))
     = [BGR [[(10, 20, 30)]]]
   \<and> vwriter_calls (captureThread_step example_extern
       (example_frame [[(10, 20, 30)]] 5000000) all_hidden_recording_scope)
     = [SetCodec VP9, SetContainer Matroska, SetLossless False,
        Initialize ''out.mkv'' 1 1 20 True None, EncodeFrame (BGR [[(10, 20, 30)]])]"
  by (simp add: red_hidden_recording_scope_def all_hidden_recording_scope_def example_defs
      api_defs loop_defs Let_def split_bgr_def merge_bgr_def zeros_def mat_rows_def
      mat_cols_def)

subsection \<open>Settings\<close>

text \<open>Claim C5, as amended. For every integer exposure input \<open>e\<close> that is not
  negative, after \<open>setExposure e\<close> the stored exposure, which \<open>exposure\<close> returns, is
  \<open>e\<close> clamped to \<open>[1, 100]\<close>. (The source replaces 0 by 1 and caps at 100; it
  has no test for negative inputs.)\<close>

theorem setExposure_clamps_nonnegative:
  "0 \<le> e \<Longrightarrow> exposure (setExposure e s) = min (max e 1) 100"
  by (simp add: setExposure_def exposure_def cam_set_def Let_def)

theorem setExposure_clamps_nonnegative_witness:
  "(0::int) \<le> 250
   \<and> exposure (setExposure 250 (MiniScope_new zero_memory)) = min (max 250 1) 100"
  using setExposure_clamps_nonnegative [of 250 "MiniScope_new zero_memory"] by simp

text \<open>Claim C5 as stated fails at \<open>e = -5\<close>: the stored value is \<open>-5\<close>, not 1.\<close>

theorem setExposure_negative_counterexample:
  "exposure (setExposure (- 5) (MiniScope_new zero_memory)) = - 5
   \<and> exposure (setExposure (- 5) (MiniScope_new zero_memory)) \<noteq> min (max (- 5) 1) 100"
  by (simp add: setExposure_def exposure_def cam_set_def Let_def)

text \<open>Claim C6, as amended. On a connected controller and for every excitation input
  \<open>v\<close> that is not negative, \<open>setLed v\<close> sends exactly one value on the LED channel,
  \<open>clamp(v, 0, 100) / 200\<close>; it lies in \<open>[0, 0.5]\<close> and grows with the input.\<close>

theorem setLed_value_nonnegative:
  "d_connected s \<Longrightarrow> 0 \<le> v \<Longrightarrow>
   led_sent v s = [real_of_int (min (max v 0) 100) / 200]
   \<and> 0 \<le> real_of_int (min (max v 0) 100) / 200
   \<and> real_of_int (min (max v 0) 100) / 200 \<le> 1 / 2
   \<and> (v \<le> w \<longrightarrow>
        led_sent w s = [real_of_int (min (max w 0) 100) / 200]
        \<and> real_of_int (min (max v 0) 100) / 200 \<le> real_of_int (min (max w 0) 100) / 200)"
  by (auto simp add: led_sent_def setLed_def cam_set_def Let_def)

lemma connected_scope_connected: "d_connected connected_scope"
  by (simp add: connected_scope_def connect_def Let_def MiniScope_new_def zero_memory_def
      setLed_def cam_set_def setExposure_def setGain_def setExcitation_def cam_open_def
      emitMessage_def)

theorem setLed_value_nonnegative_witness:
  "d_connected connected_scope \<and> (0::int) \<le> 40 \<and> (40::int) \<le> 130
   \<and> led_sent 40 connected_scope = [1 / 5]
   \<and> led_sent 130 connected_scope = [1 / 2]"
  using setLed_value_nonnegative [of connected_scope 40 130] connected_scope_connected
  by simp

text \<open>Claim C6 as stated fails at \<open>v = -10\<close>: the value sent is \<open>-1/20\<close>, below
  the range, where \<open>clamp(-10, 0, 100)\<close> is 0.\<close>

theorem setLed_negative_counterexample:
  "led_sent (- 10) connected_scope = [- 1 / 20] \<and> \<not> (0 \<le> (- 1 / 20 :: real))
   \<and> led_sent 0 connected_scope = [0]"
  by (simp add: led_sent_def setLed_def cam_set_def Let_def connect_def MiniScope_new_def
      zero_memory_def setExposure_def setGain_def setExcitation_def cam_open_def
      emitMessage_def connected_scope_def)

subsection \<open>The frame ring\<close>

lemma cb_push_back_capacity: "cb_capacity (cb_push_back x b) = cb_capacity b"
  by (simp add: cb_push_back_def)

lemma cb_push_back_length:
  "length (cb_items b) \<le> cb_capacity b \<Longrightarrow>
   length (cb_items (cb_push_back x b)) \<le> cb_capacity b"
  by (auto simp add: cb_push_back_def)

lemma fold_cb_push_back:
  "0 < cb_capacity b \<Longrightarrow> length (cb_items b) \<le> cb_capacity b \<Longrightarrow>
   cb_capacity (fold cb_push_back fs b) = cb_capacity b
   \<and> cb_items (fold cb_push_back fs b) =
       drop (length (cb_items b) + length fs - cb_capacity b) (cb_items b @ fs)"
proof (induction fs arbitrary: b)
  case Nil
  then show ?case by simp
next
  case (Cons f fs)
  let ?b = "cb_push_back f b"
  have cap: "cb_capacity ?b = cb_capacity b" by (rule cb_push_back_capacity)
  have len: "length (cb_items ?b) \<le> cb_capacity ?b"
    using Cons.prems by (simp add: cap cb_push_back_length)
  have ih: "cb_capacity (fold cb_push_back fs ?b) = cb_capacity ?b
     \<and> cb_items (fold cb_push_back fs ?b) =
       drop (length (cb_items ?b) + length fs - cb_capacity ?b) (cb_items ?b @ fs)"
    using Cons.IH [of ?b] Cons.prems len by (simp add: cap)
  show ?case
  proof (cases "length (cb_items b) < cb_capacity b")
    case True
    then have "cb_items ?b = cb_items b @ [f]" by (simp add: cb_push_back_def)
    with ih cap show ?thesis by simp
  next
    case False
    with Cons.prems have full: "length (cb_items b) = cb_capacity b" by simp
    with Cons.prems obtain y ys where ys: "cb_items b = y # ys" by (cases "cb_items b") auto
    from full ys have capb: "cb_capacity b = Suc (length ys)" by simp
    from capb ys have items: "cb_items ?b = ys @ [f]" by (simp add: cb_push_back_def)
    from ih show ?thesis unfolding cap items capb ys by simp
  qed
qed

lemma fold_addFrameToBuffer:
  "d_frameRing (fold addFrameToBuffer fs s) = fold cb_push_back fs (d_frameRing s)"
  by (induction fs arbitrary: s) (simp_all add: addFrameToBuffer_def)

text \<open>Claim C7. The frame ring is created with capacity 64 and empty, and neither
  \<open>addFrameToBuffer\<close> nor \<open>currentFrame\<close> changes the capacity. Pushing 65 frames
  onto the empty ring leaves the last 64 of them, in the order pushed (in general the
  ring holds the last 64 of what it held followed by what was pushed). \<open>currentFrame\<close>
  returns the oldest frame and removes it; on an empty ring it returns the empty frame
  and changes nothing.\<close>

theorem frameRing_fifo:
  "cb_capacity (d_frameRing (MiniScope_new mem)) = 64
   \<and> cb_items (d_frameRing (MiniScope_new mem)) = []
   \<and> cb_capacity (d_frameRing (addFrameToBuffer f s)) = cb_capacity (d_frameRing s)
   \<and> cb_capacity (d_frameRing (snd (currentFrame s))) = cb_capacity (d_frameRing s)
   \<and> (cb_capacity (d_frameRing s) = 64 \<and> cb_items (d_frameRing s) = [] \<and> length fs = 65 \<longrightarrow>
        cb_items (d_frameRing (fold addFrameToBuffer fs s)) = tl fs)
   \<and> (cb_capacity (d_frameRing s) = 64 \<and> length (cb_items (d_frameRing s)) \<le> 64 \<longrightarrow>
        cb_items (d_frameRing (fold addFrameToBuffer fs s)) =
          drop (length (cb_items (d_frameRing s)) + length fs - 64)
            (cb_items (d_frameRing s) @ fs))
   \<and> (cb_items (d_frameRing s) = [] \<longrightarrow> currentFrame s = (EmptyMat, s))
   \<and> (cb_items (d_frameRing s) = x # xs \<longrightarrow>
        fst (currentFrame s) = x \<and> cb_items (d_frameRing (snd (currentFrame s))) = xs)"
proof -
  have a: "cb_capacity (d_frameRing s) = 64 \<and> length (cb_items (d_frameRing s)) \<le> 64 \<longrightarrow>
        cb_items (d_frameRing (fold addFrameToBuffer fs s)) =
          drop (length (cb_items (d_frameRing s)) + length fs - 64)
            (cb_items (d_frameRing s) @ fs)"
    using fold_cb_push_back [of "d_frameRing s" fs] by (simp add: fold_addFrameToBuffer)
  have b: "cb_capacity (d_frameRing s) = 64 \<and> cb_items (d_frameRing s) = [] \<and> length fs = 65 \<longrightarrow>
        cb_items (d_frameRing (fold addFrameToBuffer fs s)) = tl fs"
    using a by (simp add: drop_Suc)
  have c: "cb_capacity (d_frameRing (snd (currentFrame s))) = cb_capacity (d_frameRing s)"
    by (simp add: currentFrame_def cb_pop_front_def cb_size_def split: list.splits)
  have d: "cb_items (d_frameRing s) = x # xs \<longrightarrow>
        fst (currentFrame s) = x \<and> cb_items (d_frameRing (snd (currentFrame s))) = xs"
    by (simp add: currentFrame_def cb_pop_front_def cb_size_def)
  have e: "cb_items (d_frameRing s) = [] \<longrightarrow> currentFrame s = (EmptyMat, s)"
    by (simp add: currentFrame_def cb_size_def)
  show ?thesis using a b c d e
    by (simp add: MiniScope_new_def cb_new_def addFrameToBuffer_def cb_push_back_capacity)
qed

theorem frameRing_fifo_witness:
  "cb_capacity (d_frameRing (MiniScope_new zero_memory)) = 64
   \<and> cb_items (d_frameRing (MiniScope_new zero_memory)) = []
   \<and> length (map (\<lambda>n. GRAY [[word_of_nat n]]) [0..<65]) = 65
   \<and> cb_items (d_frameRing (fold addFrameToBuffer (map (\<lambda>n. GRAY [[word_of_nat n]]) [0..<65])
        (MiniScope_new zero_memory)))
      = tl (map (\<lambda>n. GRAY [[word_of_nat n]]) [0..<65])
   \<and> currentFrame (MiniScope_new zero_memory) = (EmptyMat, MiniScope_new zero_memory)
   \<and> cb_items (d_frameRing (addFrameToBuffer (GRAY [[7]])
        (addFrameToBuffer (GRAY [[5]]) (MiniScope_new zero_memory)))) = [GRAY [[5]], GRAY [[7]]]
   \<and> fst (currentFrame (addFrameToBuffer (GRAY [[7]])
        (addFrameToBuffer (GRAY [[5]]) (MiniScope_new zero_memory)))) = GRAY [[5]]
   \<and> cb_items (d_frameRing (snd (currentFrame (addFrameToBuffer (GRAY [[7]])
        (addFrameToBuffer (GRAY [[5]]) (MiniScope_new zero_memory)))))) = [GRAY [[7]]]"
proof -
  let ?s = "MiniScope_new zero_memory"
  let ?fs = "map (\<lambda>n. GRAY [[word_of_nat n]]) [0..<65]"
  let ?t = "addFrameToBuffer (GRAY [[7]]) (addFrameToBuffer (GRAY [[5]]) ?s)"
  have cap: "cb_capacity (d_frameRing ?s) = 64" and emp: "cb_items (d_frameRing ?s) = []"
    by (simp_all add: MiniScope_new_def cb_new_def)
  have len: "length ?fs = 65"
    by simp
  have two: "cb_items (d_frameRing ?t) = [GRAY [[5]], GRAY [[7]]]"
    by (simp add: addFrameToBuffer_def cb_push_back_def MiniScope_new_def cb_new_def)
  from frameRing_fifo [of zero_memory EmptyMat ?s ?fs EmptyMat "[]"] cap emp len
  have push: "cb_items (d_frameRing (fold addFrameToBuffer ?fs ?s)) = tl ?fs"
    and none: "currentFrame ?s = (EmptyMat, ?s)"
    by blast+
  from frameRing_fifo [of zero_memory EmptyMat ?t "[]" "GRAY [[5]]" "[GRAY [[7]]]"] two
  have pop: "fst (currentFrame ?t) = GRAY [[5]]"
    "cb_items (d_frameRing (snd (currentFrame ?t))) = [GRAY [[7]]]"
    by blast+
  show ?thesis
    using cap emp len two push none pop by blast
qed

subsection \<open>Telemetry\<close>

text \<open>Claim C8 (the source does not do what the claim says). When the clock has not
  advanced between two retrieves the delay is zero milliseconds, and the frame rate of
  line 502 divides by zero: there is no guard. (A delay of 50 ms gives 20 frames per
  second.)\<close>

theorem telemetry_divides_by_zero:
  "d_currentFPS (snd (captureThread_telemetry X (i\<lparr>in_clock := currentTime l\<rparr>) l s))
   = Inl DivisionByZero
   \<and> fps_of_delay 0 = Inl DivisionByZero
   \<and> fps_of_delay 50 = Inr 20"
  by (simp add: captureThread_telemetry_def Let_def fps_of_delay_def)

subsection \<open>The life of a recording\<close>

text \<open>Claim C9. \<open>startRecording\<close> makes no call of \<open>initialize\<close> or
  \<open>encodeFrame\<close> on the video writer, in any state. With the external trigger off, if
  the loop retrieves no frame between \<open>startRecording\<close> and \<open>stopRecording\<close>, then
  whatever iterations follow, the writer is never initialized and no frame is encoded.
  If instead the loop of a connected, running controller whose writer is idle processes
  frames between \<open>startRecording\<close> and \<open>stopRecording\<close>, at least one, then the
  writer has been initialized once (and not finalized) when they are processed, and once
  the next frame after \<open>stopRecording\<close> is processed it has been initialized exactly
  once, has encoded one frame for each frame processed while recording, and has been
  finalized exactly once.\<close>

theorem recorder_lazy_initialization:
  "initialize_calls (snd (startRecording X opened now start fname s)) = initialize_calls s
   \<and> encodeFrame_calls (snd (startRecording X opened now start fname s)) = encodeFrame_calls s
   \<and> (\<not> d_checkRecTrigger s \<and> (\<forall>i \<in> set mid. no_frame i) \<longrightarrow>
        initialize_calls (captureThread_steps X is (stopRecording (captureThread_steps X mid
            (snd (startRecording X opened now start fname s)))))
          = initialize_calls s
      \<and> encodeFrame_calls (captureThread_steps X is (stopRecording (captureThread_steps X mid
            (snd (startRecording X opened now start fname s)))))
          = encodeFrame_calls s)
   \<and> (\<not> d_checkRecTrigger s \<and> d_connected s \<and> d_running s \<and> d_thread s = Some (Live l)
        \<and> \<not> recordFrames l \<and> \<not> vwriter_initialized l
        \<and> frames \<noteq> [] \<and> (\<forall>i \<in> set frames. processed_frame i) \<and> processed_frame j \<longrightarrow>
        initialize_calls (captureThread_steps X frames
            (snd (startRecording X opened now start fname s)))
          = initialize_calls s + 1
      \<and> finalized_recordings (captureThread_steps X frames
            (snd (startRecording X opened now start fname s)))
          = finalized_recordings s
      \<and> initialize_calls (captureThread_step X j (stopRecording (captureThread_steps X frames
            (snd (startRecording X opened now start fname s)))))
          = initialize_calls s + 1
      \<and> encodeFrame_calls (captureThread_step X j (stopRecording (captureThread_steps X frames
            (snd (startRecording X opened now start fname s)))))
          = encodeFrame_calls s + length frames
      \<and> finalized_recordings (captureThread_step X j (stopRecording (captureThread_steps X frames
            (snd (startRecording X opened now start fname s)))))
          = finalized_recordings s + 1)"
proof -
  let ?s1 = "snd (startRecording X opened now start fname s)"
  have start: "initialize_calls ?s1 = initialize_calls s \<and> encodeFrame_calls ?s1 = encodeFrame_calls s"
    by (simp add: initialize_calls_def encodeFrame_calls_def startRecording_filter)
  have never: "initialize_calls (captureThread_steps X is
          (stopRecording (captureThread_steps X mid ?s1))) = initialize_calls s
      \<and> encodeFrame_calls (captureThread_steps X is
          (stopRecording (captureThread_steps X mid ?s1))) = encodeFrame_calls s"
    if h: "\<not> d_checkRecTrigger s" "\<forall>i \<in> set mid. no_frame i"
  proof -
    let ?s2 = "captureThread_steps X mid ?s1"
    note nf = steps_no_frame [OF h(2), of X ?s1]
    have a: "\<not> d_recording (stopRecording ?s2)" and b: "\<not> d_checkRecTrigger (stopRecording ?s2)"
      using h(1) nf by (simp_all add: stopRecording_def)
    have c: "vwriter_calls (stopRecording ?s2) = vwriter_calls ?s2"
      by (simp add: stopRecording_def)
    show ?thesis
      using steps_quiet [OF a b, of X "is"] start nf
      by (simp add: initialize_calls_def encodeFrame_calls_def c)
  qed
  have once: "initialize_calls (captureThread_steps X frames ?s1) = initialize_calls s + 1
      \<and> finalized_recordings (captureThread_steps X frames ?s1) = finalized_recordings s
      \<and> initialize_calls (captureThread_step X j (stopRecording (captureThread_steps X frames ?s1)))
          = initialize_calls s + 1
      \<and> encodeFrame_calls (captureThread_step X j (stopRecording (captureThread_steps X frames ?s1)))
          = encodeFrame_calls s + length frames
      \<and> finalized_recordings (captureThread_step X j (stopRecording (captureThread_steps X frames ?s1)))
          = finalized_recordings s + 1"
    if h: "\<not> d_checkRecTrigger s" "d_connected s" "d_running s" "d_thread s = Some (Live l)"
      "\<not> recordFrames l" "\<not> vwriter_initialized l" "frames \<noteq> []"
      "\<forall>i \<in> set frames. processed_frame i" "processed_frame j"
  proof -
    note sr = startRecording_running [OF h(2,3), of X opened now start fname]
    have t1: "d_thread ?s1 = Some (Live l)" using sr(2) h(4) by simp
    have c1: "\<not> d_checkRecTrigger ?s1" using h(1) by simp
    have inv: "recordFrames l = vwriter_initialized l" using h(5,6) by simp
    let ?s2 = "captureThread_steps X frames ?s1"
    note rec = steps_recording [OF h(8) t1 sr(3) sr(4) c1 inv, of X]
    from rec h(7) obtain l' where l': "d_thread ?s2 = Some (Live l')"
      "recordFrames l'" "vwriter_initialized l'"
      by auto
    from rec h(6,7) have n2: "initialize_calls ?s2 = initialize_calls ?s1 + 1"
      "encodeFrame_calls ?s2 = encodeFrame_calls ?s1 + length frames"
      "finalized_recordings ?s2 = finalized_recordings ?s1"
      "d_running ?s2" "\<not> d_checkRecTrigger ?s2"
      by simp_all
    let ?s3 = "stopRecording ?s2"
    have s3: "d_thread ?s3 = Some (Live l')" "d_running ?s3" "\<not> d_recording ?s3"
      "\<not> d_checkRecTrigger ?s3"
      using l'(1) n2(4,5) by (simp_all add: stopRecording_def)
    have n3: "initialize_calls ?s3 = initialize_calls ?s2"
      "encodeFrame_calls ?s3 = encodeFrame_calls ?s2"
      "finalized_recordings ?s3 = finalized_recordings ?s2"
      by (simp_all add: stopRecording_def initialize_calls_def encodeFrame_calls_def
          finalized_recordings_def)
    note fin = step_stopping [OF s3 h(9) l'(2,3), of X]
    have f1: "finalized_recordings ?s1 = finalized_recordings s"
      using sr(5) by (simp add: finalized_recordings_def)
    show ?thesis
      using fin n3 n2(1,2,3) start f1 by simp
  qed
  show ?thesis using start never once by blast
qed

theorem recorder_lazy_initialization_witness:
  "\<not> d_checkRecTrigger running_scope \<and> d_connected running_scope \<and> d_running running_scope
   \<and> d_thread running_scope =
       Some (Live \<lparr>currentTime = 0, recordFrames = False, vwriter_initialized = False\<rparr>)
   \<and> no_frame example_drop
   \<and> [example_frame [[(1, 2, 3)]] 50000000] \<noteq> []
   \<and> processed_frame (example_frame [[(1, 2, 3)]] 50000000)
   \<and> processed_frame (example_frame [[(4, 5, 6)]] 100000000)
   \<and> initialize_calls (captureThread_steps example_extern
         [example_frame [[(4, 5, 6)]] 100000000]
         (stopRecording (captureThread_steps example_extern [example_drop]
            (snd (startRecording example_extern True 0 0 ''out.mkv'' running_scope)))))
       = 0
   \<and> encodeFrame_calls (captureThread_steps example_extern
         [example_frame [[(4, 5, 6)]] 100000000]
         (stopRecording (captureThread_steps example_extern [example_drop]
            (snd (startRecording example_extern True 0 0 ''out.mkv'' running_scope)))))
       = 0
   \<and> initialize_calls (captureThread_steps example_extern
         [example_frame [[(1, 2, 3)]] 50000000]
         (snd (startRecording example_extern True 0 0 ''out.mkv'' running_scope)))
       = 1
   \<and> initialize_calls (captureThread_step example_extern (example_frame [[(4, 5, 6)]] 100000000)
         (stopRecording (captureThread_steps example_extern [example_frame [[(1, 2, 3)]] 50000000]
            (snd (startRecording example_extern True 0 0 ''out.mkv'' running_scope)))))
       = 1
   \<and> encodeFrame_calls (captureThread_step example_extern (example_frame [[(4, 5, 6)]] 100000000)
         (stopRecording (captureThread_steps example_extern [example_frame [[(1, 2, 3)]] 50000000]
            (snd (startRecording example_extern True 0 0 ''out.mkv'' running_scope)))))
       = 1
   \<and> finalized_recordings (captureThread_step example_extern
         (example_frame [[(4, 5, 6)]] 100000000)
         (stopRecording (captureThread_steps example_extern [example_frame [[(1, 2, 3)]] 50000000]
            (snd (startRecording example_extern True 0 0 ''out.mkv'' running_scope)))))
       = 1"
proof -
  have p1: "processed_frame (example_frame [[(1, 2, 3)]] 50000000)"
    and p2: "processed_frame (example_frame [[(4, 5, 6)]] 100000000)"
    by (simp_all add: processed_frame_def example_frame_def)
  have nf: "no_frame example_drop"
    by (simp add: no_frame_def example_drop_def)
  have zero: "initialize_calls running_scope = 0" "encodeFrame_calls running_scope = 0"
    "finalized_recordings running_scope = 0"
    by (simp_all add: initialize_calls_def encodeFrame_calls_def finalized_recordings_def
        running_scope_facts)
  from recorder_lazy_initialization [of example_extern True 0 0 "''out.mkv''" running_scope
      "[example_drop]" "[example_frame [[(4, 5, 6)]] 100000000]"
      "\<lparr>currentTime = 0, recordFrames = False, vwriter_initialized = False\<rparr>"
      "[example_frame [[(1, 2, 3)]] 50000000]" "example_frame [[(4, 5, 6)]] 100000000"]
  show ?thesis
    using running_scope_facts p1 p2 nf zero by simp
qed

subsection \<open>The accessor \<open>recording\<close>\<close>

text \<open>Claim C10. The accessor \<open>recording\<close> returns the conjunction of the flags
  \<open>running\<close> and \<open>recording\<close>; so it is never true while \<open>running\<close> is false,
  whatever the flag \<open>recording\<close> holds.\<close>

theorem recording_accessor:
  "recording s = (d_running s \<and> d_recording s) \<and> (\<not> running s \<longrightarrow> \<not> recording s)"
  by (simp add: recording_def running_def)

theorem recording_accessor_witness:
  "\<not> running (zero_memory\<lparr>d_recording := True\<rparr>)
   \<and> d_recording (zero_memory\<lparr>d_recording := True\<rparr>)
   \<and> \<not> recording (zero_memory\<lparr>d_recording := True\<rparr>)"
  using recording_accessor [of "zero_memory\<lparr>d_recording := True\<rparr>"]
  by (simp add: running_def zero_memory_def)

end
